theory Spec2Isabelle
  imports Complex_Main "HOL-Library.AList"
begin

section \<open>Conventions of the embedding\<close>

text \<open>
  The repository is Python. Its \<^verbatim>\<open>float\<close> values are modelled as \<^typ>\<open>real\<close> numbers:
  comparisons and arithmetic are exact, so rounding, infinities and NaN are outside the
  model. Every division of the source is \<open>py_div\<close>, which raises on a zero divisor as
  Python's \<^verbatim>\<open>/\<close> does. A function that can raise returns \<open>py_error + 'a\<close>.
  Logging calls have no effect on the state and are left out.
\<close>

datatype py_error = ZeroDivisionError | ValueError | TypeError

definition py_div :: "real \<Rightarrow> real \<Rightarrow> py_error + real" where
  "py_div a b = (if b = 0 then Inl ZeroDivisionError else Inr (a / b))"

section \<open>risk\_calculator.py\<close>

record CommissionCalculation =
  entry_commission_usd :: real
  exit_commission_usd :: real
  total_commission_usd :: real
  entry_commission_bnb :: real
  exit_commission_bnb :: real
  total_commission_bnb :: real
  has_bnb_discount :: bool
  commission_rate_used :: real

record StopLossCalculation =
  sl_stop_loss_price :: real
  stop_loss_amount_usd :: real
  reason :: string
  commission_amount :: real
  profit_ratio_amount :: real

record BNBRequirement =
  required_bnb :: real
  required_bnb_with_safety :: real
  current_bnb_balance :: real
  is_sufficient :: bool
  bnb_price_usd :: real
  safety_multiplier :: real

text \<open>The four attributes set by \<^verbatim>\<open>RiskCalculator.__init__\<close>.\<close>

definition commission_rate_standard :: real where
  "commission_rate_standard = 0.001"

definition commission_rate_with_bnb :: real where
  "commission_rate_with_bnb = 0.00075"

definition stop_loss_profit_ratio :: real where
  "stop_loss_profit_ratio = 0.5"

definition bnb_safety_multiplier :: real where
  "bnb_safety_multiplier = 2.5"

definition calculate_commissions :: "real \<Rightarrow> real \<Rightarrow> real \<Rightarrow> py_error + CommissionCalculation" where
  "calculate_commissions trade_amount_usd bnb_balance bnb_price =
     (let commission_rate =
            (if bnb_balance > 0.001 then commission_rate_with_bnb else commission_rate_standard);
          has_discount = (bnb_balance > 0.001);
          entry_usd = trade_amount_usd * commission_rate;
          exit_usd = trade_amount_usd * commission_rate;
          total_usd = entry_usd + exit_usd
      in if has_discount then
           (case py_div entry_usd bnb_price of
              Inl e \<Rightarrow> Inl e
            | Inr entry_bnb \<Rightarrow>
           (case py_div exit_usd bnb_price of
              Inl e \<Rightarrow> Inl e
            | Inr exit_bnb \<Rightarrow>
           (case py_div total_usd bnb_price of
              Inl e \<Rightarrow> Inl e
            | Inr total_bnb \<Rightarrow>
                Inr \<lparr>entry_commission_usd = entry_usd, exit_commission_usd = exit_usd,
                     total_commission_usd = total_usd, entry_commission_bnb = entry_bnb,
                     exit_commission_bnb = exit_bnb, total_commission_bnb = total_bnb,
                     has_bnb_discount = has_discount, commission_rate_used = commission_rate\<rparr>)))
         else
           Inr \<lparr>entry_commission_usd = entry_usd, exit_commission_usd = exit_usd,
                total_commission_usd = total_usd, entry_commission_bnb = 0,
                exit_commission_bnb = 0, total_commission_bnb = 0,
                has_bnb_discount = has_discount, commission_rate_used = commission_rate\<rparr>)"

definition calculate_bnb_requirement :: "real \<Rightarrow> real \<Rightarrow> real \<Rightarrow> py_error + BNBRequirement" where
  "calculate_bnb_requirement trade_amount_usd current_balance bnb_price =
     (case calculate_commissions trade_amount_usd current_balance bnb_price of
        Inl e \<Rightarrow> Inl e
      | Inr commission_calc \<Rightarrow>
          (let required = total_commission_bnb commission_calc;
               with_safety = required * bnb_safety_multiplier;
               sufficient = (current_balance \<ge> with_safety)
           in Inr \<lparr>required_bnb = required, required_bnb_with_safety = with_safety,
                   current_bnb_balance = current_balance, is_sufficient = sufficient,
                   bnb_price_usd = bnb_price, safety_multiplier = bnb_safety_multiplier\<rparr>))"

definition calculate_stop_loss ::
  "real \<Rightarrow> real \<Rightarrow> real \<Rightarrow> real \<Rightarrow> real \<Rightarrow> py_error + StopLossCalculation" where
  "calculate_stop_loss entry_price target_profit trade_amount_usd bnb_balance bnb_price =
     (case calculate_commissions trade_amount_usd bnb_balance bnb_price of
        Inl e \<Rightarrow> Inl e
      | Inr commission_calc \<Rightarrow>
          (let commission = total_commission_usd commission_calc;
               profit_ratio = target_profit * stop_loss_profit_ratio;
               amount = max commission profit_ratio;
               why = (if amount = commission then ''commission_based'' else ''profit_ratio_based'')
           in case py_div trade_amount_usd entry_price of
                Inl e \<Rightarrow> Inl e
              | Inr btc_quantity \<Rightarrow>
             (case py_div amount btc_quantity of
                Inl e \<Rightarrow> Inl e
              | Inr stop_loss_per_unit \<Rightarrow>
                  Inr \<lparr>sl_stop_loss_price = entry_price - stop_loss_per_unit,
                       stop_loss_amount_usd = amount, reason = why,
                       commission_amount = commission, profit_ratio_amount = profit_ratio\<rparr>)))"

text \<open>The dictionary returned by \<^verbatim>\<open>calculate_trailing_thresholds\<close>, one field per key.\<close>

record TrailingThresholds =
  tt_target_profit_usd :: real
  trailing_activation_usd :: real
  trailing_amount_usd :: real
  trailing_percent :: real
  minimum_exit_profit_usd :: real

definition calculate_trailing_thresholds :: "real \<Rightarrow> real \<Rightarrow> TrailingThresholds" where
  "calculate_trailing_thresholds target_profit percent =
     (let trailing_amount = target_profit * (percent / 100)
      in \<lparr>tt_target_profit_usd = target_profit, trailing_activation_usd = target_profit,
          trailing_amount_usd = trailing_amount, trailing_percent = percent,
          minimum_exit_profit_usd = target_profit - trailing_amount\<rparr>)"

text \<open>
  \<^verbatim>\<open>check_trade_viability\<close> returns \<^verbatim>\<open>(is_viable, reason, details)\<close>. The reason is an
  f-string; the model keeps which message it is and the numbers formatted into it. The
  \<^verbatim>\<open>details\<close> dictionary is filled key by key, so each key is optional here.
\<close>

datatype viability_reason =
    TradeAmountTooSmall real real
  | InsufficientBNB real real
  | StopLossTooLarge real
  | PoorRiskReward real
  | TradeViable

record viability_details =
  commissions :: "CommissionCalculation option"
  bnb_requirement :: "BNBRequirement option"
  stop_loss :: "StopLossCalculation option"
  trailing :: "TrailingThresholds option"
  risk_reward_ratio :: "real option"

definition no_details :: viability_details where
  "no_details = \<lparr>commissions = None, bnb_requirement = None, stop_loss = None,
                  trailing = None, risk_reward_ratio = None\<rparr>"

definition check_trade_viability ::
  "real \<Rightarrow> real \<Rightarrow> real \<Rightarrow> real \<Rightarrow> real \<Rightarrow> real
     \<Rightarrow> py_error + (bool \<times> viability_reason \<times> viability_details)" where
  "check_trade_viability trade_amount_usd target_profit entry_price current_balance bnb_price
       min_trade_amount =
     (if trade_amount_usd < min_trade_amount then
        Inr (False, TradeAmountTooSmall trade_amount_usd min_trade_amount, no_details)
      else
        case calculate_commissions trade_amount_usd current_balance bnb_price of
          Inl e \<Rightarrow> Inl e
        | Inr commission_calc \<Rightarrow>
       (let d1 = no_details\<lparr>commissions := Some commission_calc\<rparr>
        in case calculate_bnb_requirement trade_amount_usd current_balance bnb_price of
          Inl e \<Rightarrow> Inl e
        | Inr bnb_req \<Rightarrow>
       (let d2 = d1\<lparr>bnb_requirement := Some bnb_req\<rparr>
        in if \<not> is_sufficient bnb_req then
             Inr (False, InsufficientBNB (required_bnb_with_safety bnb_req) current_balance, d2)
           else
        case calculate_stop_loss entry_price target_profit trade_amount_usd current_balance
               bnb_price of
          Inl e \<Rightarrow> Inl e
        | Inr stop_loss_calc \<Rightarrow>
       (let d3 = d2\<lparr>stop_loss := Some stop_loss_calc\<rparr>
        in case py_div (entry_price - sl_stop_loss_price stop_loss_calc) entry_price of
          Inl e \<Rightarrow> Inl e
        | Inr fraction \<Rightarrow>
       (let stop_loss_percent = fraction * 100
        in if stop_loss_percent > 10 then
             Inr (False, StopLossTooLarge stop_loss_percent, d3)
           else
       (let d4 = d3\<lparr>trailing := Some (calculate_trailing_thresholds target_profit 20)\<rparr>
        in case py_div target_profit (stop_loss_amount_usd stop_loss_calc) of
          Inl e \<Rightarrow> Inl e
        | Inr ratio \<Rightarrow>
       (let d5 = d4\<lparr>risk_reward_ratio := Some ratio\<rparr>
        in if ratio < 1.5 then Inr (False, PoorRiskReward ratio, d5)
           else Inr (True, TradeViable, d5))))))))"

section \<open>shared\_state.py\<close>

subsection \<open>Trade records\<close>

text \<open>
  The dataclass \<^verbatim>\<open>TradeState\<close>. The annotations of the dataclass are taken as the
  types of the fields; Python does not check them.
\<close>

record TradeState =
  trade_id :: string
  symbol :: string
  side :: string
  quantity :: real
  entry_price :: real
  current_price :: real
  entry_time :: real
  target_profit_usd :: real
  current_profit_usd :: real
  max_profit_usd :: real
  trailing_active :: bool
  trailing_threshold :: real
  stop_loss_price :: real
  stop_loss_reason :: string
  bnb_sufficient :: bool
  estimated_commission :: real
  status :: string
  last_update :: real
  process_id :: "int option"

text \<open>
  A position record as it stands in a state file: anything that is not a JSON object, or
  an object. Of an object the model keeps the value under each key that is a field of
  \<^verbatim>\<open>TradeState\<close> (absent keys are \<open>None\<close>) and the list of its other keys.
\<close>

record trade_dict =
  k_trade_id :: "string option"
  k_symbol :: "string option"
  k_side :: "string option"
  k_quantity :: "real option"
  k_entry_price :: "real option"
  k_current_price :: "real option"
  k_entry_time :: "real option"
  k_target_profit_usd :: "real option"
  k_current_profit_usd :: "real option"
  k_max_profit_usd :: "real option"
  k_trailing_active :: "bool option"
  k_trailing_threshold :: "real option"
  k_stop_loss_price :: "real option"
  k_stop_loss_reason :: "string option"
  k_bnb_sufficient :: "bool option"
  k_estimated_commission :: "real option"
  k_status :: "string option"
  k_last_update :: "real option"
  k_process_id :: "int option option"
  k_unexpected :: "string list"

datatype trade_data = NotADict | TradeDict trade_dict

text \<open>
  \<^verbatim>\<open>TradeState(**trade_data)\<close>: a \<^verbatim>\<open>TypeError\<close> unless the argument is a mapping that
  has every field without a default and no key that is not a field. Only
  \<^verbatim>\<open>process_id\<close> has a default.
\<close>

definition mk_TradeState :: "trade_data \<Rightarrow> py_error + TradeState" where
  "mk_TradeState td =
     (case td of
        NotADict \<Rightarrow> Inl TypeError
      | TradeDict d \<Rightarrow>
          if k_unexpected d = [] \<and> k_trade_id d \<noteq> None \<and> k_symbol d \<noteq> None \<and>
             k_side d \<noteq> None \<and> k_quantity d \<noteq> None \<and> k_entry_price d \<noteq> None \<and>
             k_current_price d \<noteq> None \<and> k_entry_time d \<noteq> None \<and>
             k_target_profit_usd d \<noteq> None \<and> k_current_profit_usd d \<noteq> None \<and>
             k_max_profit_usd d \<noteq> None \<and> k_trailing_active d \<noteq> None \<and>
             k_trailing_threshold d \<noteq> None \<and> k_stop_loss_price d \<noteq> None \<and>
             k_stop_loss_reason d \<noteq> None \<and> k_bnb_sufficient d \<noteq> None \<and>
             k_estimated_commission d \<noteq> None \<and> k_status d \<noteq> None \<and>
             k_last_update d \<noteq> None
          then Inr \<lparr>trade_id = the (k_trade_id d), symbol = the (k_symbol d),
                    side = the (k_side d), quantity = the (k_quantity d),
                    entry_price = the (k_entry_price d),
                    current_price = the (k_current_price d),
                    entry_time = the (k_entry_time d),
                    target_profit_usd = the (k_target_profit_usd d),
                    current_profit_usd = the (k_current_profit_usd d),
                    max_profit_usd = the (k_max_profit_usd d),
                    trailing_active = the (k_trailing_active d),
                    trailing_threshold = the (k_trailing_threshold d),
                    stop_loss_price = the (k_stop_loss_price d),
                    stop_loss_reason = the (k_stop_loss_reason d),
                    bnb_sufficient = the (k_bnb_sufficient d),
                    estimated_commission = the (k_estimated_commission d),
                    status = the (k_status d), last_update = the (k_last_update d),
                    process_id = (case k_process_id d of None \<Rightarrow> None | Some p \<Rightarrow> p)\<rparr>
          else Inl TypeError)"

text \<open>\<^verbatim>\<open>dataclasses.asdict\<close> on a \<^verbatim>\<open>TradeState\<close>: every field becomes a key.\<close>

definition asdict :: "TradeState \<Rightarrow> trade_dict" where
  "asdict t =
     \<lparr>k_trade_id = Some (trade_id t), k_symbol = Some (symbol t), k_side = Some (side t),
      k_quantity = Some (quantity t), k_entry_price = Some (entry_price t),
      k_current_price = Some (current_price t), k_entry_time = Some (entry_time t),
      k_target_profit_usd = Some (target_profit_usd t),
      k_current_profit_usd = Some (current_profit_usd t),
      k_max_profit_usd = Some (max_profit_usd t),
      k_trailing_active = Some (trailing_active t),
      k_trailing_threshold = Some (trailing_threshold t),
      k_stop_loss_price = Some (stop_loss_price t),
      k_stop_loss_reason = Some (stop_loss_reason t),
      k_bnb_sufficient = Some (bnb_sufficient t),
      k_estimated_commission = Some (estimated_commission t),
      k_status = Some (status t), k_last_update = Some (last_update t),
      k_process_id = Some (process_id t), k_unexpected = []\<rparr>"

subsection \<open>The process state and the two files\<close>

text \<open>Values of type \<^verbatim>\<open>Any\<close> in the market data are JSON values.\<close>

datatype json =
    JNull
  | JBool bool
  | JNum real
  | JStr string
  | JList "json list"
  | JDict "(string \<times> json) list"

text \<open>
  The object \<^verbatim>\<open>state_dict\<close> that \<^verbatim>\<open>save_state\<close> writes and \<^verbatim>\<open>load_state\<close> reads. Every
  key is optional because the loader reads each with \<^verbatim>\<open>.get\<close> and a default. A file
  holds such an object, or text from which \<^verbatim>\<open>json.load\<close> and the loader get none.
  \<^verbatim>\<open>json.dump\<close> is a function of the object, so two files with the same object hold the
  same bytes. Dictionaries are association lists in insertion order, the order in which
  Python iterates and writes them.
\<close>

record state_dict =
  d_active_trades :: "(string \<times> trade_data) list option"
  d_market_data :: "(string \<times> json) list option"
  d_balance_data :: "(string \<times> real) list option"
  d_last_update :: "real option"
  d_bot_running :: "bool option"
  d_websocket_connected :: "bool option"
  d_saved_at :: "string option"

datatype file_content = Unparseable | Document state_dict

text \<open>
  \<^verbatim>\<open>TradeState\<close> objects are mutable and are passed by reference, so they live in a
  store \<open>objs\<close> of objects indexed by reference; \<open>next_ref\<close> is the first unused
  reference. The other fields are those of \<^verbatim>\<open>SystemState\<close> (\<^verbatim>\<open>active_trades\<close> maps a
  trade id to a reference) and the contents of the state file and of the backup file,
  \<open>None\<close> for a file that does not exist. File operations themselves do not fail in the
  model.
\<close>

record world =
  objs :: "nat \<Rightarrow> TradeState"
  next_ref :: nat
  active_trades :: "(string \<times> nat) list"
  market_data :: "(string \<times> json) list"
  balance_data :: "(string \<times> real) list"
  sys_last_update :: real
  bot_running :: bool
  websocket_connected :: bool
  state_file :: "file_content option"
  backup_file :: "file_content option"

text \<open>Constructing a \<^verbatim>\<open>TradeState\<close> object.\<close>

definition new_object :: "world \<Rightarrow> TradeState \<Rightarrow> nat \<times> world" where
  "new_object w t = (next_ref w, w\<lparr>objs := (objs w)(next_ref w := t), next_ref := Suc (next_ref w)\<rparr>)"

text \<open>Assignments to the attributes of a \<^verbatim>\<open>TradeState\<close> object that the repository makes.\<close>

datatype attr_update =
    Set_current_price real
  | Set_current_profit_usd real
  | Set_max_profit_usd real
  | Set_trailing_active bool
  | Set_status string
  | Set_last_update real
  | Set_process_id "int option"

fun apply_update :: "attr_update \<Rightarrow> TradeState \<Rightarrow> TradeState" where
  "apply_update (Set_current_price v) t = t\<lparr>current_price := v\<rparr>"
| "apply_update (Set_current_profit_usd v) t = t\<lparr>current_profit_usd := v\<rparr>"
| "apply_update (Set_max_profit_usd v) t = t\<lparr>max_profit_usd := v\<rparr>"
| "apply_update (Set_trailing_active v) t = t\<lparr>trailing_active := v\<rparr>"
| "apply_update (Set_status v) t = t\<lparr>status := v\<rparr>"
| "apply_update (Set_last_update v) t = t\<lparr>last_update := v\<rparr>"
| "apply_update (Set_process_id v) t = t\<lparr>process_id := v\<rparr>"

definition setattr :: "world \<Rightarrow> nat \<Rightarrow> attr_update \<Rightarrow> world" where
  "setattr w r u = w\<lparr>objs := (objs w)(r := apply_update u (objs w r))\<rparr>"

text \<open>The records of the store by value: what a reader of the store sees under each id.\<close>

definition stored_trades :: "world \<Rightarrow> (string \<times> TradeState) list" where
  "stored_trades w = map (\<lambda>(k, r). (k, objs w r)) (active_trades w)"

subsection \<open>Saving and loading\<close>

text \<open>
  \<open>now\<close> is the reading of \<^verbatim>\<open>time.time()\<close> and \<open>stamp\<close> the string
  \<^verbatim>\<open>datetime.now().isoformat()\<close> of this call. The \<^verbatim>\<open>force\<close> argument is not used by
  the source.
\<close>

definition save_state :: "world \<Rightarrow> real \<Rightarrow> string \<Rightarrow> world" where
  "save_state w now stamp =
     (let w1 = (case state_file w of None \<Rightarrow> w | Some c \<Rightarrow> w\<lparr>backup_file := Some c\<rparr>);
          w2 = w1\<lparr>sys_last_update := now\<rparr>;
          doc = \<lparr>d_active_trades =
                   Some (map (\<lambda>(k, r). (k, TradeDict (asdict (objs w2 r)))) (active_trades w2)),
                 d_market_data = Some (market_data w2),
                 d_balance_data = Some (balance_data w2),
                 d_last_update = Some (sys_last_update w2),
                 d_bot_running = Some (bot_running w2),
                 d_websocket_connected = Some (websocket_connected w2),
                 d_saved_at = Some stamp\<rparr>
      in w2\<lparr>state_file := Some (Document doc)\<rparr>)"

text \<open>
  The loop of \<^verbatim>\<open>load_state\<close>: the first record that does not construct raises, which
  leaves the loop. The accumulator is the dictionary built so far. The objects built
  before the record that raises are referenced from nowhere; the caller goes on with the
  state it had before the loop.
\<close>

fun restore_strict ::
  "world \<Rightarrow> (string \<times> trade_data) list \<Rightarrow> (string \<times> nat) list
     \<Rightarrow> py_error + (world \<times> (string \<times> nat) list)" where
  "restore_strict w [] acc = Inr (w, acc)"
| "restore_strict w ((k, td) # rest) acc =
     (case mk_TradeState td of
        Inl e \<Rightarrow> Inl e
      | Inr t \<Rightarrow> (case new_object w t of (r, w') \<Rightarrow> restore_strict w' rest (AList.update k r acc)))"

text \<open>
  The loop of \<^verbatim>\<open>_try_load_backup\<close>: the \<^verbatim>\<open>try\<close> inside the loop catches the error of
  one record and the loop goes on.
\<close>

fun restore_tolerant ::
  "world \<Rightarrow> (string \<times> trade_data) list \<Rightarrow> (string \<times> nat) list
     \<Rightarrow> world \<times> (string \<times> nat) list" where
  "restore_tolerant w [] acc = (w, acc)"
| "restore_tolerant w ((k, td) # rest) acc =
     (case mk_TradeState td of
        Inl e \<Rightarrow> restore_tolerant w rest acc
      | Inr t \<Rightarrow> (case new_object w t of (r, w') \<Rightarrow> restore_tolerant w' rest (AList.update k r acc)))"

text \<open>
  For the statements about loading: the records of a file that construct, by value and in
  the order of the file. This is the specification's "every well-formed record", not a
  function of the source.
\<close>

definition well_formed_records :: "(string \<times> trade_data) list \<Rightarrow> (string \<times> TradeState) list" where
  "well_formed_records kvs =
     List.map_filter
       (\<lambda>(k, td). case mk_TradeState td of Inl e \<Rightarrow> None | Inr t \<Rightarrow> Some (k, t)) kvs"

definition items_or_empty :: "('k \<times> 'v) list option \<Rightarrow> ('k \<times> 'v) list" where
  "items_or_empty m = (case m of None \<Rightarrow> [] | Some kvs \<Rightarrow> kvs)"

definition try_load_backup :: "world \<Rightarrow> world" where
  "try_load_backup w =
     (case backup_file w of
        None \<Rightarrow> w
      | Some Unparseable \<Rightarrow> w
      | Some (Document d) \<Rightarrow>
          (case restore_tolerant w (items_or_empty (d_active_trades d)) [] of
             (w', trades) \<Rightarrow> w'\<lparr>active_trades := trades\<rparr>))"

text \<open>
  \<open>now\<close> is the reading of \<^verbatim>\<open>time.time()\<close> that is the default of \<^verbatim>\<open>last_update\<close>.
  Any exception inside the outer \<^verbatim>\<open>try\<close> goes to \<^verbatim>\<open>_try_load_backup\<close>; the in-memory
  state is assigned only after the loop, so at that point it is still the old one.
\<close>

definition load_state :: "world \<Rightarrow> real \<Rightarrow> world" where
  "load_state w now =
     (case state_file w of
        None \<Rightarrow> w
      | Some Unparseable \<Rightarrow> try_load_backup w
      | Some (Document d) \<Rightarrow>
          (case restore_strict w (items_or_empty (d_active_trades d)) [] of
             Inl e \<Rightarrow> try_load_backup w
           | Inr (w', trades) \<Rightarrow>
               w'\<lparr>active_trades := trades,
                  market_data := items_or_empty (d_market_data d),
                  balance_data := items_or_empty (d_balance_data d),
                  sys_last_update := (case d_last_update d of None \<Rightarrow> now | Some t \<Rightarrow> t),
                  bot_running := False,
                  websocket_connected := False\<rparr>))"

subsection \<open>Operations on trades\<close>

text \<open>\<^verbatim>\<open>add_trade\<close> receives the object itself, that is, its reference.\<close>

definition add_trade :: "world \<Rightarrow> nat \<Rightarrow> real \<Rightarrow> string \<Rightarrow> world" where
  "add_trade w r now stamp =
     save_state (w\<lparr>active_trades := AList.update (trade_id (objs w r)) r (active_trades w)\<rparr>)
       now stamp"

text \<open>\<open>now\<close> is the reading of \<^verbatim>\<open>time.time()\<close> inside \<^verbatim>\<open>update_trade\<close>.\<close>

definition update_trade :: "world \<Rightarrow> string \<Rightarrow> attr_update list \<Rightarrow> real \<Rightarrow> world" where
  "update_trade w tid updates now =
     (case map_of (active_trades w) tid of
        None \<Rightarrow> w
      | Some r \<Rightarrow> setattr (fold (\<lambda>u w'. setattr w' r u) updates w) r (Set_last_update now))"

definition remove_trade :: "world \<Rightarrow> string \<Rightarrow> real \<Rightarrow> string \<Rightarrow> world" where
  "remove_trade w tid now stamp =
     (case map_of (active_trades w) tid of
        None \<Rightarrow> w
      | Some r \<Rightarrow> save_state (w\<lparr>active_trades := AList.delete tid (active_trades w)\<rparr>) now stamp)"

text \<open>
  \<^verbatim>\<open>get_trade\<close> returns what the dictionary holds, the object itself;
  \<^verbatim>\<open>get_all_trades\<close> returns a new dictionary holding the same objects.
\<close>

definition get_trade :: "world \<Rightarrow> string \<Rightarrow> nat option" where
  "get_trade w tid = map_of (active_trades w) tid"

definition get_all_trades :: "world \<Rightarrow> (string \<times> nat) list" where
  "get_all_trades w = active_trades w"

definition set_bot_status :: "world \<Rightarrow> bool \<Rightarrow> real \<Rightarrow> string \<Rightarrow> world" where
  "set_bot_status w running now stamp = save_state (w\<lparr>bot_running := running\<rparr>) now stamp"

definition set_websocket_status :: "world \<Rightarrow> bool \<Rightarrow> world" where
  "set_websocket_status w flag = w\<lparr>websocket_connected := flag\<rparr>"

text \<open>
  \<^verbatim>\<open>SharedState.__init__\<close> in a process whose objects and files are those of \<open>w\<close>: an
  empty in-memory state with both flags false, then \<^verbatim>\<open>load_state\<close>. \<open>t0\<close> and \<open>t1\<close>
  are the two clock readings of the constructor.
\<close>

definition SharedState_init :: "world \<Rightarrow> real \<Rightarrow> real \<Rightarrow> world" where
  "SharedState_init w t0 t1 =
     load_state (w\<lparr>active_trades := [], market_data := [], balance_data := [],
                   sys_last_update := t0, bot_running := False,
                   websocket_connected := False\<rparr>) t1"

section \<open>trade\_logic.py\<close>

datatype TradePhase = ENTERING | WAITING_PROFIT | TRAILING | EXITING | COMPLETED

fun TradePhase_value :: "TradePhase \<Rightarrow> string" where
  "TradePhase_value ENTERING = ''entering''"
| "TradePhase_value WAITING_PROFIT = ''waiting''"
| "TradePhase_value TRAILING = ''trailing''"
| "TradePhase_value EXITING = ''exiting''"
| "TradePhase_value COMPLETED = ''completed''"

text \<open>
  The call \<^verbatim>\<open>TradePhase(s)\<close> looks the member up by value and raises \<^verbatim>\<open>ValueError\<close> for
  a string that is the value of none; that is \<open>None\<close> here.
\<close>

definition TradePhase_of :: "string \<Rightarrow> TradePhase option" where
  "TradePhase_of s =
     (if s = ''entering'' then Some ENTERING
      else if s = ''waiting'' then Some WAITING_PROFIT
      else if s = ''trailing'' then Some TRAILING
      else if s = ''exiting'' then Some EXITING
      else if s = ''completed'' then Some COMPLETED
      else None)"

text \<open>
  The functions below take the reference \<open>r\<close> of the object that the source calls
  \<^verbatim>\<open>trade\<close>. The repository never registers a phase callback
  (\<^verbatim>\<open>set_phase_callback\<close> has no caller), so \<^verbatim>\<open>phase_callbacks\<close> is empty and the
  callback branches do nothing. \<open>now\<close> is the clock reading inside \<^verbatim>\<open>update_trade\<close>.
\<close>

definition trigger_exit :: "world \<Rightarrow> nat \<Rightarrow> real \<Rightarrow> world" where
  "trigger_exit w r now =
     (let w1 = setattr w r (Set_status (TradePhase_value EXITING))
      in update_trade w1 (trade_id (objs w1 r)) [Set_status (TradePhase_value EXITING)] now)"

definition handle_waiting_phase ::
  "world \<Rightarrow> nat \<Rightarrow> real \<Rightarrow> real \<Rightarrow> (bool \<times> string option) \<times> world" where
  "handle_waiting_phase w r profit now =
     (if profit \<ge> target_profit_usd (objs w r) then
        (let w1 = setattr w r (Set_trailing_active True);
             w2 = setattr w1 r (Set_max_profit_usd profit);
             w3 = setattr w2 r (Set_status (TradePhase_value TRAILING));
             w4 = update_trade w3 (trade_id (objs w3 r))
                    [Set_trailing_active True, Set_max_profit_usd profit,
                     Set_status (TradePhase_value TRAILING)] now
         in ((True, None), w4))
      else ((True, None), w))"

text \<open>
  \<open>clk 0\<close>, \<open>clk 1\<close>, ... are the successive clock readings of one call. The exit is
  the second call of \<^verbatim>\<open>update_trade\<close> if the maximum was raised, else the first.
\<close>

definition handle_trailing_phase ::
  "world \<Rightarrow> nat \<Rightarrow> real \<Rightarrow> (nat \<Rightarrow> real) \<Rightarrow> (bool \<times> string option) \<times> world" where
  "handle_trailing_phase w r profit clk =
     (let raised = (profit > max_profit_usd (objs w r));
          w1 = (if raised then
                  (let w0 = setattr w r (Set_max_profit_usd profit)
                   in update_trade w0 (trade_id (objs w0 r)) [Set_max_profit_usd profit] (clk 0))
                else w);
          trailing_exit_level = max_profit_usd (objs w1 r) - trailing_threshold (objs w1 r);
          minimum_acceptable_profit =
            target_profit_usd (objs w1 r) - trailing_threshold (objs w1 r) * 0.5;
          profit_dropped_enough = (profit \<le> trailing_exit_level);
          profit_being_eaten = (profit \<le> minimum_acceptable_profit)
      in if profit_dropped_enough \<or> profit_being_eaten then
           (let why = (if profit_dropped_enough then ''trailing_stop'' else ''profit_protection'')
            in ((False, Some why), trigger_exit w1 r (clk (if raised then 1 else 0))))
         else ((True, None), w1))"

definition update_trade_with_price ::
  "world \<Rightarrow> string \<Rightarrow> real \<Rightarrow> (nat \<Rightarrow> real)
     \<Rightarrow> py_error + ((bool \<times> string option) \<times> world)" where
  "update_trade_with_price w tid price clk =
     (case get_trade w tid of
        None \<Rightarrow> Inr ((False, Some ''Trade not found''), w)
      | Some r \<Rightarrow>
          (let w1 = setattr w r (Set_current_price price);
               profit_per_btc = price - entry_price (objs w1 r);
               profit = profit_per_btc * quantity (objs w1 r);
               w2 = setattr w1 r (Set_current_profit_usd profit)
           in if price \<le> stop_loss_price (objs w2 r) then
                Inr ((False, Some ''stop_loss''), trigger_exit w2 r (clk 0))
              else
                (case TradePhase_of (status (objs w2 r)) of
                   None \<Rightarrow> Inl ValueError
                 | Some WAITING_PROFIT \<Rightarrow> Inr (handle_waiting_phase w2 r profit (clk 0))
                 | Some TRAILING \<Rightarrow> Inr (handle_trailing_phase w2 r profit clk)
                 | Some _ \<Rightarrow>
                     Inr ((True, None),
                          update_trade w2 tid
                            [Set_current_price price, Set_current_profit_usd profit,
                             Set_last_update (clk 0)] (clk 1)))))"

text \<open>
  A worker feeds successive price samples to the same trade; each sample comes with the
  clock readings of its call. An exception ends the run.
\<close>

fun feed_prices ::
  "world \<Rightarrow> string \<Rightarrow> (real \<times> (nat \<Rightarrow> real)) list \<Rightarrow> py_error + world" where
  "feed_prices w tid [] = Inr w"
| "feed_prices w tid ((price, clk) # rest) =
     (case update_trade_with_price w tid price clk of
        Inl e \<Rightarrow> Inl e
      | Inr (res, w') \<Rightarrow> feed_prices w' tid rest)"

section \<open>Sample data\<close>

text \<open>
  A position as \<^verbatim>\<open>create_trade_state\<close> builds it for an entry at 60000 with 1000 USD, a
  target of 50 USD and no BNB, after the caller has set the status to "waiting"; and a
  process state that holds one position, at reference 0, and no files.
\<close>

definition sample_trade :: TradeState where
  "sample_trade =
     \<lparr>trade_id = ''trade_1'', symbol = ''BTCUSDT'', side = ''BUY'', quantity = 1 / 60,
      entry_price = 60000, current_price = 60000, entry_time = 1,
      target_profit_usd = 50, current_profit_usd = 0, max_profit_usd = 0,
      trailing_active = False, trailing_threshold = 10, stop_loss_price = 58500,
      stop_loss_reason = ''profit_ratio_based'', bnb_sufficient = True,
      estimated_commission = 2, status = ''waiting'', last_update = 1, process_id = None\<rparr>"

definition sample_world :: "TradeState \<Rightarrow> world" where
  "sample_world t =
     \<lparr>objs = (\<lambda>r. t), next_ref = 1, active_trades = [(trade_id t, 0)], market_data = [],
      balance_data = [], sys_last_update = 1, bot_running = False,
      websocket_connected = False, state_file = None, backup_file = None\<rparr>"

text \<open>
  A state document with the given position records; the sample position as a well-formed
  record and as a record that lacks the key \<^verbatim>\<open>quantity\<close>; and a process state with no
  position in memory and the given two files.
\<close>

definition sample_document :: "(string \<times> trade_data) list \<Rightarrow> state_dict" where
  "sample_document kvs =
     \<lparr>d_active_trades = Some kvs, d_market_data = Some [], d_balance_data = Some [],
      d_last_update = Some 1, d_bot_running = Some True, d_websocket_connected = Some True,
      d_saved_at = Some ''2026-01-01T00:00:01''\<rparr>"

definition good_record :: trade_data where
  "good_record = TradeDict (asdict sample_trade)"

definition malformed_record :: trade_data where
  "malformed_record = TradeDict ((asdict sample_trade)\<lparr>k_quantity := None\<rparr>)"

definition fresh_world :: "file_content option \<Rightarrow> file_content option \<Rightarrow> world" where
  "fresh_world primary backup =
     \<lparr>objs = (\<lambda>r. sample_trade), next_ref = 0, active_trades = [], market_data = [],
      balance_data = [], sys_last_update = 0, bot_running = False,
      websocket_connected = False, state_file = primary, backup_file = backup\<rparr>"

section \<open>Properties of the risk calculator\<close>

lemma calculate_commissions_no_discount:
  "bal \<le> 0.001 \<Longrightarrow>
   calculate_commissions amt bal price =
     Inr \<lparr>entry_commission_usd = amt * 0.001, exit_commission_usd = amt * 0.001,
          total_commission_usd = amt * 0.001 + amt * 0.001, entry_commission_bnb = 0,
          exit_commission_bnb = 0, total_commission_bnb = 0,
          has_bnb_discount = False, commission_rate_used = 0.001\<rparr>"
  by (simp add: calculate_commissions_def commission_rate_standard_def Let_def)

lemma calculate_commissions_discount:
  "bal > 0.001 \<Longrightarrow> price \<noteq> 0 \<Longrightarrow>
   calculate_commissions amt bal price =
     Inr \<lparr>entry_commission_usd = amt * 0.00075, exit_commission_usd = amt * 0.00075,
          total_commission_usd = amt * 0.00075 + amt * 0.00075,
          entry_commission_bnb = amt * 0.00075 / price,
          exit_commission_bnb = amt * 0.00075 / price,
          total_commission_bnb = (amt * 0.00075 + amt * 0.00075) / price,
          has_bnb_discount = True, commission_rate_used = 0.00075\<rparr>"
  by (simp add: calculate_commissions_def commission_rate_with_bnb_def py_div_def Let_def)

lemma calculate_commissions_zero_price:
  "bal > 0.001 \<Longrightarrow> calculate_commissions amt bal 0 = Inl ZeroDivisionError"
  by (simp add: calculate_commissions_def py_div_def Let_def)

text \<open>
  Claim C9, as the code has it. With a BNB balance above 0.001 and a BNB price other than
  zero, \<open>calculate_commissions\<close> uses the rate 0.00075 and reports each BNB amount as
  the USD amount divided by the BNB price; with a balance of at most 0.001 it uses the
  rate 0.001 and every BNB amount is zero. In both cases the entry and the exit commission
  are the trade amount times the rate and the total is their sum.
\<close>
theorem commissions_by_balance:
  "(bal > 0.001 \<and> price \<noteq> 0 \<longrightarrow>
      calculate_commissions amt bal price =
        Inr \<lparr>entry_commission_usd = amt * 0.00075, exit_commission_usd = amt * 0.00075,
             total_commission_usd = amt * 0.00075 + amt * 0.00075,
             entry_commission_bnb = amt * 0.00075 / price,
             exit_commission_bnb = amt * 0.00075 / price,
             total_commission_bnb = (amt * 0.00075 + amt * 0.00075) / price,
             has_bnb_discount = True, commission_rate_used = 0.00075\<rparr>) \<and>
   (bal \<le> 0.001 \<longrightarrow>
      calculate_commissions amt bal price =
        Inr \<lparr>entry_commission_usd = amt * 0.001, exit_commission_usd = amt * 0.001,
             total_commission_usd = amt * 0.001 + amt * 0.001, entry_commission_bnb = 0,
             exit_commission_bnb = 0, total_commission_bnb = 0,
             has_bnb_discount = False, commission_rate_used = 0.001\<rparr>)"
  using calculate_commissions_discount [of bal price amt]
        calculate_commissions_no_discount [of bal amt price]
  by blast

text \<open>The statement of C9 at a balance of 1 BNB and at a balance of 0 BNB.\<close>
theorem commissions_by_balance_witness:
  "calculate_commissions 1000 1 300 =
     Inr \<lparr>entry_commission_usd = 0.75, exit_commission_usd = 0.75,
          total_commission_usd = 1.5, entry_commission_bnb = 0.0025,
          exit_commission_bnb = 0.0025, total_commission_bnb = 0.005,
          has_bnb_discount = True, commission_rate_used = 0.00075\<rparr> \<and>
   calculate_commissions 1000 0 300 =
     Inr \<lparr>entry_commission_usd = 1, exit_commission_usd = 1,
          total_commission_usd = 2, entry_commission_bnb = 0,
          exit_commission_bnb = 0, total_commission_bnb = 0,
          has_bnb_discount = False, commission_rate_used = 0.001\<rparr>"
  using commissions_by_balance [of 1 300 1000] commissions_by_balance [of 0 300 1000]
  by simp

text \<open>
  C9 as written has no condition on the BNB price: with a balance of 1 BNB and a price of
  0 the division raises and nothing is reported.
\<close>
theorem commissions_zero_price_counterexample:
  "(1::real) > 0.001 \<and> \<not> (\<exists>c. calculate_commissions 1000 1 0 = Inr c)"
  by (simp add: calculate_commissions_def py_div_def Let_def)

lemma bnb_requirement_no_discount:
  "bal \<le> 0.001 \<Longrightarrow>
   calculate_bnb_requirement amt bal price =
     Inr \<lparr>required_bnb = 0, required_bnb_with_safety = 0, current_bnb_balance = bal,
          is_sufficient = (0 \<le> bal), bnb_price_usd = price, safety_multiplier = 2.5\<rparr>"
  by (simp add: calculate_bnb_requirement_def calculate_commissions_no_discount
        bnb_safety_multiplier_def)

text \<open>
  Claim C10. For a non-negative BNB balance of at most 0.001, \<open>calculate_bnb_requirement\<close>
  returns a requirement of 0, with and without the safety factor, and reports the balance
  as sufficient; and for a non-negative balance \<open>check_trade_viability\<close> answers
  "Insufficient BNB" only if the balance exceeds 0.001.
\<close>
theorem zero_bnb_passes_gate:
  assumes "0 \<le> bal"
  shows "(bal \<le> 0.001 \<longrightarrow>
            calculate_bnb_requirement amt bal price =
              Inr \<lparr>required_bnb = 0, required_bnb_with_safety = 0, current_bnb_balance = bal,
                   is_sufficient = True, bnb_price_usd = price, safety_multiplier = 2.5\<rparr>) \<and>
         (check_trade_viability amt target entry bal price min_amt =
              Inr (ok, InsufficientBNB need have, details) \<longrightarrow> bal > 0.001)"
proof (intro conjI impI)
  assume "bal \<le> 0.001"
  then show "calculate_bnb_requirement amt bal price =
      Inr \<lparr>required_bnb = 0, required_bnb_with_safety = 0, current_bnb_balance = bal,
           is_sufficient = True, bnb_price_usd = price, safety_multiplier = 2.5\<rparr>"
    using assms by (simp add: bnb_requirement_no_discount)
next
  assume r: "check_trade_viability amt target entry bal price min_amt =
      Inr (ok, InsufficientBNB need have, details)"
  show "bal > 0.001"
  proof (rule ccontr)
    assume "\<not> bal > 0.001"
    then have le: "bal \<le> 0.001" by simp
    from r show False
      using assms
      by (simp add: check_trade_viability_def calculate_commissions_no_discount [OF le]
            bnb_requirement_no_discount [OF le] Let_def
          split: if_splits sum.splits)
  qed
qed

text \<open>
  C10 at a balance of zero, and at a balance of 0.002 BNB, where the gate does reject
  (a trade of 1000 USD needs 0.0125 BNB).
\<close>
theorem zero_bnb_passes_gate_witness:
  "calculate_bnb_requirement 1000 0 300 =
     Inr \<lparr>required_bnb = 0, required_bnb_with_safety = 0, current_bnb_balance = 0,
          is_sufficient = True, bnb_price_usd = 300, safety_multiplier = 2.5\<rparr> \<and>
   (\<exists>details. check_trade_viability 1000 50 60000 0.002 300 10 =
        Inr (False, InsufficientBNB 0.0125 0.002, details)) \<and>
   (0.002::real) > 0.001"
proof -
  have a: "(0::real) \<le> 0" by simp
  have b: "(0::real) \<le> 0.002" by simp
  have v: "\<exists>details. check_trade_viability 1000 50 60000 0.002 300 10 =
        Inr (False, InsufficientBNB 0.0125 0.002, details)"
    by (simp add: check_trade_viability_def calculate_bnb_requirement_def
          calculate_commissions_def py_div_def Let_def commission_rate_with_bnb_def
          bnb_safety_multiplier_def)
  then obtain details where d: "check_trade_viability 1000 50 60000 0.002 300 10 =
        Inr (False, InsufficientBNB 0.0125 0.002, details)" by blast
  from zero_bnb_passes_gate [OF a, of 1000 300] zero_bnb_passes_gate [OF b, of 1000 50 60000 300 10 False "0.0125" "0.002" details] d v
  show ?thesis by simp
qed

lemma calculate_stop_loss_ok:
  assumes c: "calculate_commissions amt bal price = Inr c"
    and pos: "0 < entry" "0 < amt"
  shows "calculate_stop_loss entry target amt bal price =
       Inr \<lparr>sl_stop_loss_price =
              entry - max (total_commission_usd c) (0.5 * target) / (amt / entry),
            stop_loss_amount_usd = max (total_commission_usd c) (0.5 * target),
            reason = (if 0.5 * target \<le> total_commission_usd c then ''commission_based''
                      else ''profit_ratio_based''),
            commission_amount = total_commission_usd c,
            profit_ratio_amount = 0.5 * target\<rparr>"
  using pos
  by (simp add: calculate_stop_loss_def c py_div_def Let_def stop_loss_profit_ratio_def
        max_def mult.commute)

text \<open>
  Claim C3, as the code has it. For positive entry price, target profit and trade amount,
  and a BNB price other than zero whenever the balance exceeds 0.001, the commission
  computation succeeds and \<open>calculate_stop_loss\<close> returns the amount
  \<open>max(total commission, 0.5 * target)\<close>, the reason "commission\_based" exactly when the
  commission is at least \<open>0.5 * target\<close> (ties included), and the price
  \<open>entry - amount / (trade_amount / entry)\<close>.
\<close>
theorem stop_loss_formula:
  assumes "0 < entry" "0 < target" "0 < amt" "bal \<le> 0.001 \<or> price \<noteq> 0"
  shows "\<exists>c. calculate_commissions amt bal price = Inr c \<and>
           calculate_stop_loss entry target amt bal price =
             Inr \<lparr>sl_stop_loss_price =
                    entry - max (total_commission_usd c) (0.5 * target) / (amt / entry),
                  stop_loss_amount_usd = max (total_commission_usd c) (0.5 * target),
                  reason = (if 0.5 * target \<le> total_commission_usd c then ''commission_based''
                            else ''profit_ratio_based''),
                  commission_amount = total_commission_usd c,
                  profit_ratio_amount = 0.5 * target\<rparr>"
proof -
  have "\<exists>c. calculate_commissions amt bal price = Inr c"
  proof (cases "bal \<le> 0.001")
    case True
    then show ?thesis by (simp add: calculate_commissions_no_discount)
  next
    case False
    with assms(4) have "bal > 0.001" "price \<noteq> 0" by auto
    then show ?thesis by (simp add: calculate_commissions_discount)
  qed
  then obtain c where c: "calculate_commissions amt bal price = Inr c" ..
  from calculate_stop_loss_ok [OF c assms(1) assms(3)] c show ?thesis by blast
qed

text \<open>
  C3 at entry 60000, target 50, trade amount 1000 and no BNB: amount 25, reason
  "profit\_ratio\_based", price 58500; and a tie (target 4, commission 2) is
  commission based.
\<close>
theorem stop_loss_formula_witness:
  "calculate_stop_loss 60000 50 1000 0 300 =
     Inr \<lparr>sl_stop_loss_price = 58500, stop_loss_amount_usd = 25,
          reason = ''profit_ratio_based'', commission_amount = 2,
          profit_ratio_amount = 25\<rparr> \<and>
   calculate_stop_loss 100 4 1000 0 300 =
     Inr \<lparr>sl_stop_loss_price = 99.8, stop_loss_amount_usd = 2,
          reason = ''commission_based'', commission_amount = 2,
          profit_ratio_amount = 2\<rparr>"
proof -
  have c: "calculate_commissions 1000 0 300 =
     Inr \<lparr>entry_commission_usd = 1, exit_commission_usd = 1,
          total_commission_usd = 2, entry_commission_bnb = 0,
          exit_commission_bnb = 0, total_commission_bnb = 0,
          has_bnb_discount = False, commission_rate_used = 0.001\<rparr>"
    by (simp add: calculate_commissions_def commission_rate_standard_def Let_def)
  have h: "(0::real) < 60000" "(0::real) < 50" "(0::real) < 1000" "(0::real) \<le> 0.001 \<or> (300::real) \<noteq> 0"
          "(0::real) < 100" "(0::real) < 4"
    by simp_all
  from stop_loss_formula [OF h(1) h(2) h(3) h(4)] stop_loss_formula [OF h(5) h(6) h(3) h(4)] c
  show ?thesis by simp
qed

text \<open>
  C3 as written has no condition on the BNB price: with a balance of 1 BNB and a price of
  0 the commission computation raises, and so does \<open>calculate_stop_loss\<close>.
\<close>
theorem stop_loss_zero_price_counterexample:
  "(0::real) < 60000 \<and> (0::real) < 50 \<and> (0::real) < 1000 \<and>
   \<not> (\<exists>r. calculate_stop_loss 60000 50 1000 1 0 = Inr r)"
  by (simp add: calculate_stop_loss_def calculate_commissions_def py_div_def Let_def)

section \<open>Properties of the price update\<close>

subsection \<open>What the store operations change\<close>

lemma objs_setattr:
  "objs (setattr w r u) = (objs w)(r := apply_update u (objs w r))"
  by (simp add: setattr_def)

lemma active_trades_setattr: "active_trades (setattr w r u) = active_trades w"
  by (simp add: setattr_def)

lemma fold_setattr:
  "objs (fold (\<lambda>u w'. setattr w' r u) ups w) = (objs w)(r := fold apply_update ups (objs w r)) \<and>
   active_trades (fold (\<lambda>u w'. setattr w' r u) ups w) = active_trades w"
  by (induction ups arbitrary: w) (simp_all add: objs_setattr active_trades_setattr)

lemma objs_update_trade:
  "objs (update_trade w k ups now) r =
     (if map_of (active_trades w) k = Some r
      then (fold apply_update ups (objs w r))\<lparr>last_update := now\<rparr>
      else objs w r)"
  by (auto simp: update_trade_def objs_setattr fold_setattr split: option.splits)

lemma active_trades_update_trade: "active_trades (update_trade w k ups now) = active_trades w"
  by (simp add: update_trade_def active_trades_setattr fold_setattr split: option.splits)

lemma active_trades_trigger_exit: "active_trades (trigger_exit w r now) = active_trades w"
  by (simp add: trigger_exit_def Let_def active_trades_update_trade active_trades_setattr)

lemma status_trigger_exit: "status (objs (trigger_exit w r now) r) = ''exiting''"
  by (simp add: trigger_exit_def Let_def objs_update_trade objs_setattr)

lemma max_trigger_exit:
  "max_profit_usd (objs (trigger_exit w r now) r) = max_profit_usd (objs w r)"
  by (simp add: trigger_exit_def Let_def objs_update_trade objs_setattr)

lemma profit_trigger_exit:
  "current_profit_usd (objs (trigger_exit w r now) r) = current_profit_usd (objs w r)"
  by (simp add: trigger_exit_def Let_def objs_update_trade objs_setattr)

subsection \<open>The stop loss comes first\<close>

text \<open>
  Claim C1. For a stored trade and a price sample at or below the stop-loss price of the
  record, \<open>update_trade_with_price\<close> returns \<open>(False, "stop_loss")\<close>, whatever the
  status of the record (one of the five phases or any other string) and whatever its
  profit figures; the record stays in the store and its status becomes "exiting".
\<close>

theorem stop_loss_first:
  assumes "get_trade w tid = Some r" and "price \<le> stop_loss_price (objs w r)"
  shows "\<exists>w'. update_trade_with_price w tid price clk = Inr ((False, Some ''stop_loss''), w') \<and>
              get_trade w' tid = Some r \<and> status (objs w' r) = ''exiting''"
  using assms
  by (simp add: update_trade_with_price_def Let_def objs_setattr status_trigger_exit
        get_trade_def active_trades_trigger_exit active_trades_setattr)

subsection \<open>The trailing phase\<close>

lemma handle_trailing_phase_result:
  "fst (handle_trailing_phase w r profit clk) =
     (let m = max (max_profit_usd (objs w r)) profit in
      if profit \<le> m - trailing_threshold (objs w r) then (False, Some ''trailing_stop'')
      else if profit \<le> target_profit_usd (objs w r) - 0.5 * trailing_threshold (objs w r)
        then (False, Some ''profit_protection'')
      else (True, None))"
  by (simp add: handle_trailing_phase_def Let_def objs_update_trade objs_setattr max_def
        mult.commute)

lemma handle_trailing_phase_state:
  "active_trades (snd (handle_trailing_phase w r profit clk)) = active_trades w"
  "max_profit_usd (objs (snd (handle_trailing_phase w r profit clk)) r) =
     max (max_profit_usd (objs w r)) profit"
  "current_profit_usd (objs (snd (handle_trailing_phase w r profit clk)) r) =
     current_profit_usd (objs w r)"
  "status (objs (snd (handle_trailing_phase w r profit clk)) r) =
     (if fst (fst (handle_trailing_phase w r profit clk)) then status (objs w r) else ''exiting'')"
  by (simp_all add: handle_trailing_phase_def Let_def objs_update_trade objs_setattr max_def
        active_trades_trigger_exit active_trades_update_trade active_trades_setattr
        status_trigger_exit max_trigger_exit profit_trigger_exit)

lemma handle_waiting_phase_state:
  "active_trades (snd (handle_waiting_phase w r profit now)) = active_trades w"
  "fst (handle_waiting_phase w r profit now) = (True, None)"
  "current_profit_usd (objs (snd (handle_waiting_phase w r profit now)) r) =
     current_profit_usd (objs w r)"
  "status (objs (snd (handle_waiting_phase w r profit now)) r) =
     (if profit \<ge> target_profit_usd (objs w r) then ''trailing'' else status (objs w r))"
  "max_profit_usd (objs (snd (handle_waiting_phase w r profit now)) r) =
     (if profit \<ge> target_profit_usd (objs w r) then profit else max_profit_usd (objs w r))"
  by (simp_all add: handle_waiting_phase_def Let_def objs_update_trade objs_setattr
        active_trades_update_trade active_trades_setattr)

text \<open>
  Claim C2. For a stored trade in the trailing phase and a price above its stop-loss
  price, one update sets \<open>max_profit_usd\<close> to the maximum of its old value and the
  current profit, then answers "trailing\_stop" if the profit is at most that maximum
  minus the threshold, else "profit\_protection" if the profit is at most the target minus
  half the threshold, else continues; so "trailing\_stop" wins when both hold. With target
  50 and threshold 10: from a maximum of 60 the update exits exactly when the profit is at
  most 50, with "trailing\_stop"; from a maximum of 52 it exits exactly when the profit is
  at most 45, with "profit\_protection" above 42 and "trailing\_stop" from 42 down.
\<close>

theorem trailing_step:
  assumes "get_trade w tid = Some r"
    and "status (objs w r) = ''trailing''"
    and "price > stop_loss_price (objs w r)"
  shows "\<exists>res w'.
      update_trade_with_price w tid price clk = Inr (res, w') \<and>
      (let profit = (price - entry_price (objs w r)) * quantity (objs w r);
           m = max (max_profit_usd (objs w r)) profit;
           target = target_profit_usd (objs w r);
           threshold = trailing_threshold (objs w r)
       in max_profit_usd (objs w' r) = m \<and>
          res = (if profit \<le> m - threshold then (False, Some ''trailing_stop'')
                 else if profit \<le> target - 0.5 * threshold then (False, Some ''profit_protection'')
                 else (True, None)) \<and>
          (target = 50 \<and> threshold = 10 \<and> max_profit_usd (objs w r) = 60 \<longrightarrow>
             res = (if profit \<le> 50 then (False, Some ''trailing_stop'') else (True, None))) \<and>
          (target = 50 \<and> threshold = 10 \<and> max_profit_usd (objs w r) = 52 \<longrightarrow>
             res = (if profit \<le> 42 then (False, Some ''trailing_stop'')
                    else if profit \<le> 45 then (False, Some ''profit_protection'')
                    else (True, None))))"
proof -
  let ?w2 = "setattr (setattr w r (Set_current_price price)) r
     (Set_current_profit_usd ((price - entry_price (objs w r)) * quantity (objs w r)))"
  let ?profit = "(price - entry_price (objs w r)) * quantity (objs w r)"
  have step: "update_trade_with_price w tid price clk =
      Inr (handle_trailing_phase ?w2 r ?profit clk)"
    using assms
    by (simp add: update_trade_with_price_def Let_def objs_setattr TradePhase_of_def)
  have f: "max_profit_usd (objs ?w2 r) = max_profit_usd (objs w r)"
     "trailing_threshold (objs ?w2 r) = trailing_threshold (objs w r)"
     "target_profit_usd (objs ?w2 r) = target_profit_usd (objs w r)"
    by (simp_all add: objs_setattr)
  obtain res w' where rw: "handle_trailing_phase ?w2 r ?profit clk = (res, w')"
    by (cases "handle_trailing_phase ?w2 r ?profit clk")
  have res: "res = (let m = max (max_profit_usd (objs w r)) ?profit in
      if ?profit \<le> m - trailing_threshold (objs w r) then (False, Some ''trailing_stop'')
      else if ?profit \<le> target_profit_usd (objs w r) - 0.5 * trailing_threshold (objs w r)
        then (False, Some ''profit_protection'')
      else (True, None))"
    using handle_trailing_phase_result [of ?w2 r ?profit clk] rw f by simp
  have mx: "max_profit_usd (objs w' r) = max (max_profit_usd (objs w r)) ?profit"
    using handle_trailing_phase_state(2) [of ?w2 r ?profit clk] rw f by simp
  show ?thesis
    unfolding step rw
    apply (intro exI conjI)
     apply (rule refl)
    using res mx
    apply (simp add: Let_def)
    apply (auto simp: max_def)
    done
qed

subsection \<open>The maximum profit\<close>

lemma TradePhase_of_cases:
  "TradePhase_of s = None \<or> s = ''entering'' \<or> s = ''waiting'' \<or> s = ''trailing'' \<or>
   s = ''exiting'' \<or> s = ''completed''"
  by (simp add: TradePhase_of_def)

lemma step_facts:
  assumes g: "get_trade w tid = Some r"
    and s: "update_trade_with_price w tid price clk = Inr (res, w')"
  shows "get_trade w' tid = Some r"
    and "status (objs w' r) = ''trailing'' \<longrightarrow> current_profit_usd (objs w' r) \<le> max_profit_usd (objs w' r)"
    and "status (objs w r) = ''waiting'' \<and> status (objs w' r) = ''trailing'' \<longrightarrow>
           max_profit_usd (objs w' r) = current_profit_usd (objs w' r)"
    and "status (objs w r) = ''trailing'' \<or> status (objs w r) = ''exiting'' \<longrightarrow>
           max_profit_usd (objs w r) \<le> max_profit_usd (objs w' r) \<and>
           (status (objs w' r) = ''trailing'' \<or> status (objs w' r) = ''exiting'')"
proof -
  let ?profit = "(price - entry_price (objs w r)) * quantity (objs w r)"
  let ?w2 = "setattr (setattr w r (Set_current_price price)) r (Set_current_profit_usd ?profit)"
  have w2: "active_trades ?w2 = active_trades w" "status (objs ?w2 r) = status (objs w r)"
    "max_profit_usd (objs ?w2 r) = max_profit_usd (objs w r)"
    "current_profit_usd (objs ?w2 r) = ?profit"
    "stop_loss_price (objs ?w2 r) = stop_loss_price (objs w r)"
    by (simp_all add: objs_setattr active_trades_setattr)
  have m: "map_of (active_trades w) tid = Some r" using g by (simp add: get_trade_def)
  consider (sl) "price \<le> stop_loss_price (objs w r)"
    | (bad) "\<not> price \<le> stop_loss_price (objs w r)" "TradePhase_of (status (objs w r)) = None"
    | (wait) "\<not> price \<le> stop_loss_price (objs w r)" "status (objs w r) = ''waiting''"
    | (trail) "\<not> price \<le> stop_loss_price (objs w r)" "status (objs w r) = ''trailing''"
    | (other) "\<not> price \<le> stop_loss_price (objs w r)"
        "status (objs w r) = ''entering'' \<or> status (objs w r) = ''exiting'' \<or> status (objs w r) = ''completed''"
    using TradePhase_of_cases [of "status (objs w r)"]
    by (cases "price \<le> stop_loss_price (objs w r)") auto
  then have "get_trade w' tid = Some r \<and>
     (status (objs w' r) = ''trailing'' \<longrightarrow> current_profit_usd (objs w' r) \<le> max_profit_usd (objs w' r)) \<and>
     (status (objs w r) = ''waiting'' \<and> status (objs w' r) = ''trailing'' \<longrightarrow>
           max_profit_usd (objs w' r) = current_profit_usd (objs w' r)) \<and>
     (status (objs w r) = ''trailing'' \<or> status (objs w r) = ''exiting'' \<longrightarrow>
           max_profit_usd (objs w r) \<le> max_profit_usd (objs w' r) \<and>
           (status (objs w' r) = ''trailing'' \<or> status (objs w' r) = ''exiting''))"
  proof cases
    case sl
    then have "w' = trigger_exit ?w2 r (clk 0)"
      using s g by (simp add: update_trade_with_price_def Let_def objs_setattr)
    then show ?thesis
      using m by (simp add: get_trade_def active_trades_trigger_exit status_trigger_exit
          max_trigger_exit w2)
  next
    case bad
    then show ?thesis
      using s g by (simp add: update_trade_with_price_def Let_def objs_setattr)
  next
    case wait
    then have "(res, w') = handle_waiting_phase ?w2 r ?profit (clk 0)"
      using s g by (simp add: update_trade_with_price_def Let_def objs_setattr TradePhase_of_def)
    then have w': "w' = snd (handle_waiting_phase ?w2 r ?profit (clk 0))"
      by (metis snd_conv)
    show ?thesis
      using m wait(2) unfolding w'
      by (simp add: get_trade_def handle_waiting_phase_state w2)
  next
    case trail
    then have "(res, w') = handle_trailing_phase ?w2 r ?profit clk"
      using s g by (simp add: update_trade_with_price_def Let_def objs_setattr TradePhase_of_def)
    then have w': "w' = snd (handle_trailing_phase ?w2 r ?profit clk)"
      by (metis snd_conv)
    show ?thesis
      using m trail(2) unfolding w'
      by (simp add: get_trade_def handle_trailing_phase_state w2)
  next
    case other
    then have w': "w' = update_trade ?w2 tid
        [Set_current_price price, Set_current_profit_usd ?profit, Set_last_update (clk 0)] (clk 1)"
      using s g by (auto simp: update_trade_with_price_def Let_def objs_setattr TradePhase_of_def)
    show ?thesis
      using m other(2) unfolding w'
      by (auto simp: get_trade_def active_trades_update_trade objs_update_trade w2)
  qed
  then show "get_trade w' tid = Some r"
    and "status (objs w' r) = ''trailing'' \<longrightarrow> current_profit_usd (objs w' r) \<le> max_profit_usd (objs w' r)"
    and "status (objs w r) = ''waiting'' \<and> status (objs w' r) = ''trailing'' \<longrightarrow>
           max_profit_usd (objs w' r) = current_profit_usd (objs w' r)"
    and "status (objs w r) = ''trailing'' \<or> status (objs w r) = ''exiting'' \<longrightarrow>
           max_profit_usd (objs w r) \<le> max_profit_usd (objs w' r) \<and>
           (status (objs w' r) = ''trailing'' \<or> status (objs w' r) = ''exiting'')"
    by blast+
qed

lemma step_total:
  assumes "get_trade w tid = Some r"
    and "status (objs w r) = ''trailing'' \<or> status (objs w r) = ''exiting''"
  shows "update_trade_with_price w tid price clk \<noteq> Inl e"
  using assms
  by (elim disjE) (simp_all add: update_trade_with_price_def Let_def objs_setattr TradePhase_of_def)

lemma feed_prices_trailing:
  assumes "get_trade w tid = Some r"
    and "status (objs w r) = ''trailing'' \<or> status (objs w r) = ''exiting''"
  shows "\<exists>w'. feed_prices w tid samples = Inr w' \<and> get_trade w' tid = Some r \<and>
           max_profit_usd (objs w r) \<le> max_profit_usd (objs w' r) \<and>
           (status (objs w' r) = ''trailing'' \<or> status (objs w' r) = ''exiting'') \<and>
           (samples \<noteq> [] \<and> status (objs w' r) = ''trailing'' \<longrightarrow>
              current_profit_usd (objs w' r) \<le> max_profit_usd (objs w' r))"
  using assms
proof (induction samples arbitrary: w)
  case Nil
  then show ?case by simp
next
  case (Cons x rest)
  obtain price clk where x: "x = (price, clk)" by (cases x)
  from step_total [OF Cons.prems, of price clk]
  obtain res w1 where s: "update_trade_with_price w tid price clk = Inr (res, w1)"
    by (cases "update_trade_with_price w tid price clk") auto
  note f = step_facts [OF Cons.prems(1) s]
  from f(4) Cons.prems(2)
  have mono: "max_profit_usd (objs w r) \<le> max_profit_usd (objs w1 r)"
    and st: "status (objs w1 r) = ''trailing'' \<or> status (objs w1 r) = ''exiting''"
    by blast+
  from Cons.IH [OF f(1) st]
  obtain w' where ih: "feed_prices w1 tid rest = Inr w'" "get_trade w' tid = Some r"
      "max_profit_usd (objs w1 r) \<le> max_profit_usd (objs w' r)"
      "status (objs w' r) = ''trailing'' \<or> status (objs w' r) = ''exiting''"
      "rest \<noteq> [] \<and> status (objs w' r) = ''trailing'' \<longrightarrow>
              current_profit_usd (objs w' r) \<le> max_profit_usd (objs w' r)"
    by blast
  have last: "status (objs w' r) = ''trailing'' \<longrightarrow>
              current_profit_usd (objs w' r) \<le> max_profit_usd (objs w' r)"
  proof (cases "rest = []")
    case True
    with ih(1) have "w' = w1" by simp
    with f(2) show ?thesis by simp
  next
    case False
    with ih(5) show ?thesis by simp
  qed
  have "feed_prices w tid (x # rest) = Inr w'"
    using s ih(1) x by simp
  with ih(2,4) mono ih(3) last show ?case
    by (intro exI [of _ w']) simp
qed

text \<open>
  Claim C4. After every update of a stored trade, a record whose status is "trailing" has
  \<open>max_profit_usd \<ge> current_profit_usd\<close>, and the update that moves a record from
  "waiting" to "trailing" sets \<open>max_profit_usd\<close> to the current profit. From a record in
  the trailing phase, any sequence of price samples runs without an exception, leaves
  \<open>max_profit_usd\<close> at least as large as before, and ends, if still trailing, with
  \<open>max_profit_usd \<ge> current_profit_usd\<close>.
\<close>

theorem max_profit_invariant:
  assumes "get_trade w tid = Some r"
  shows "(\<forall>res w'. update_trade_with_price w tid price clk = Inr (res, w') \<longrightarrow>
            (status (objs w' r) = ''trailing'' \<longrightarrow>
               current_profit_usd (objs w' r) \<le> max_profit_usd (objs w' r)) \<and>
            (status (objs w r) = ''waiting'' \<and> status (objs w' r) = ''trailing'' \<longrightarrow>
               max_profit_usd (objs w' r) = current_profit_usd (objs w' r))) \<and>
         (status (objs w r) = ''trailing'' \<longrightarrow>
            (\<exists>w'. feed_prices w tid samples = Inr w' \<and>
                  max_profit_usd (objs w r) \<le> max_profit_usd (objs w' r) \<and>
                  (samples \<noteq> [] \<and> status (objs w' r) = ''trailing'' \<longrightarrow>
                     current_profit_usd (objs w' r) \<le> max_profit_usd (objs w' r))))"
proof (intro conjI allI impI)
  fix res w'
  assume s: "update_trade_with_price w tid price clk = Inr (res, w')"
  note f = step_facts [OF assms s]
  { assume "status (objs w' r) = ''trailing''"
    with f(2) show "current_profit_usd (objs w' r) \<le> max_profit_usd (objs w' r)" by simp }
  { assume "status (objs w r) = ''waiting'' \<and> status (objs w' r) = ''trailing''"
    with f(3) show "max_profit_usd (objs w' r) = current_profit_usd (objs w' r)" by simp }
next
  assume "status (objs w r) = ''trailing''"
  then have "status (objs w r) = ''trailing'' \<or> status (objs w r) = ''exiting''" by simp
  from feed_prices_trailing [OF assms this, of samples]
  show "\<exists>w'. feed_prices w tid samples = Inr w' \<and>
                  max_profit_usd (objs w r) \<le> max_profit_usd (objs w' r) \<and>
                  (samples \<noteq> [] \<and> status (objs w' r) = ''trailing'' \<longrightarrow>
                     current_profit_usd (objs w' r) \<le> max_profit_usd (objs w' r))"
    by blast
qed

subsection \<open>The claims on the sample position\<close>

lemmas eval_defs = update_trade_with_price_def get_trade_def sample_world_def sample_trade_def
  setattr_def update_trade_def trigger_exit_def handle_waiting_phase_def
  handle_trailing_phase_def TradePhase_of_def Let_def

text \<open>
  C1 on a record in the trailing phase whose profit of 80 would let the trailing logic
  continue (maximum 80, threshold 10, target 50): the price 180 is below the stop-loss
  price 200, and the answer is "stop\_loss".
\<close>

theorem stop_loss_first_witness:
  "\<exists>w'. update_trade_with_price
          (sample_world (sample_trade\<lparr>status := ''trailing'', entry_price := 100, quantity := 1,
             stop_loss_price := 200, max_profit_usd := 80\<rparr>))
          ''trade_1'' 180 (\<lambda>n. 2) = Inr ((False, Some ''stop_loss''), w') \<and>
        status (objs w' 0) = ''exiting''"
proof -
  let ?w = "sample_world (sample_trade\<lparr>status := ''trailing'', entry_price := 100, quantity := 1,
             stop_loss_price := 200, max_profit_usd := 80\<rparr>)"
  have g: "get_trade ?w ''trade_1'' = Some 0"
    by (simp add: get_trade_def sample_world_def sample_trade_def)
  have p: "180 \<le> stop_loss_price (objs ?w 0)"
    by (simp add: sample_world_def sample_trade_def)
  from stop_loss_first [OF g p, of "\<lambda>n. 2"] show ?thesis by blast
qed

text \<open>
  C2 on the sample position: from a maximum of 60 a profit of 50 (price 63000) exits with
  "trailing\_stop"; from a maximum of 52 a profit of 45 (price 62700) exits with
  "profit\_protection", a profit of 42 (price 62520), where both conditions hold, exits
  with "trailing\_stop", and a profit of 46 (price 62760) continues.
\<close>

theorem trailing_step_witness:
  "(\<exists>w'. update_trade_with_price
           (sample_world (sample_trade\<lparr>status := ''trailing'', max_profit_usd := 60\<rparr>))
           ''trade_1'' 63000 (\<lambda>n. 2) = Inr ((False, Some ''trailing_stop''), w')) \<and>
   (\<exists>w'. update_trade_with_price
           (sample_world (sample_trade\<lparr>status := ''trailing'', max_profit_usd := 52\<rparr>))
           ''trade_1'' 62700 (\<lambda>n. 2) = Inr ((False, Some ''profit_protection''), w')) \<and>
   (\<exists>w'. update_trade_with_price
           (sample_world (sample_trade\<lparr>status := ''trailing'', max_profit_usd := 52\<rparr>))
           ''trade_1'' 62520 (\<lambda>n. 2) = Inr ((False, Some ''trailing_stop''), w')) \<and>
   (\<exists>w'. update_trade_with_price
           (sample_world (sample_trade\<lparr>status := ''trailing'', max_profit_usd := 52\<rparr>))
           ''trade_1'' 62760 (\<lambda>n. 2) = Inr ((True, None), w'))"
proof -
  let ?a = "sample_world (sample_trade\<lparr>status := ''trailing'', max_profit_usd := 60\<rparr>)"
  let ?b = "sample_world (sample_trade\<lparr>status := ''trailing'', max_profit_usd := 52\<rparr>)"
  have ga: "get_trade ?a ''trade_1'' = Some 0" and gb: "get_trade ?b ''trade_1'' = Some 0"
    by (simp_all add: get_trade_def sample_world_def sample_trade_def)
  have sa: "status (objs ?a 0) = ''trailing''" and sb: "status (objs ?b 0) = ''trailing''"
    by (simp_all add: sample_world_def sample_trade_def)
  have pa: "63000 > stop_loss_price (objs ?a 0)"
    and pb: "62700 > stop_loss_price (objs ?b 0)"
    and pc: "62760 > stop_loss_price (objs ?b 0)"
    and pd: "62520 > stop_loss_price (objs ?b 0)"
    by (simp_all add: sample_world_def sample_trade_def)
  have va: "target_profit_usd (objs ?a 0) = 50" "trailing_threshold (objs ?a 0) = 10"
      "max_profit_usd (objs ?a 0) = 60" "entry_price (objs ?a 0) = 60000"
      "quantity (objs ?a 0) = 1 / 60"
    and vb: "target_profit_usd (objs ?b 0) = 50" "trailing_threshold (objs ?b 0) = 10"
      "max_profit_usd (objs ?b 0) = 52" "entry_price (objs ?b 0) = 60000"
      "quantity (objs ?b 0) = 1 / 60"
    by (simp_all add: sample_world_def sample_trade_def)
  from trailing_step [OF ga sa pa, of "\<lambda>n. 2"]
  have 1: "\<exists>w'. update_trade_with_price ?a ''trade_1'' 63000 (\<lambda>n. 2) =
      Inr ((False, Some ''trailing_stop''), w')"
    unfolding va Let_def by auto
  from trailing_step [OF gb sb pb, of "\<lambda>n. 2"]
  have 2: "\<exists>w'. update_trade_with_price ?b ''trade_1'' 62700 (\<lambda>n. 2) =
      Inr ((False, Some ''profit_protection''), w')"
    unfolding vb Let_def by auto
  from trailing_step [OF gb sb pc, of "\<lambda>n. 2"]
  have 3: "\<exists>w'. update_trade_with_price ?b ''trade_1'' 62760 (\<lambda>n. 2) =
      Inr ((True, None), w')"
    unfolding vb Let_def by auto
  from trailing_step [OF gb sb pd, of "\<lambda>n. 2"]
  have 4: "\<exists>w'. update_trade_with_price ?b ''trade_1'' 62520 (\<lambda>n. 2) =
      Inr ((False, Some ''trailing_stop''), w')"
    unfolding vb Let_def by auto
  from 1 2 3 4 show ?thesis by blast
qed

text \<open>
  C4 on the sample position: the price 63000 reaches the target and the record enters the
  trailing phase with maximum = current profit = 50; from there the prices 63600 and 63300
  leave it trailing with a maximum of at least 50 and at least the current profit.
\<close>

theorem max_profit_invariant_witness:
  "(\<exists>res w'. update_trade_with_price (sample_world sample_trade) ''trade_1'' 63000 (\<lambda>n. 2) =
        Inr (res, w') \<and> status (objs w' 0) = ''trailing'' \<and>
        max_profit_usd (objs w' 0) = current_profit_usd (objs w' 0)) \<and>
   (\<exists>w'. feed_prices (sample_world (sample_trade\<lparr>status := ''trailing'', max_profit_usd := 50\<rparr>))
        ''trade_1'' [(63600, \<lambda>n. 2), (63300, \<lambda>n. 3)] = Inr w' \<and>
        status (objs w' 0) = ''trailing'' \<and>
        50 \<le> max_profit_usd (objs w' 0) \<and>
        current_profit_usd (objs w' 0) \<le> max_profit_usd (objs w' 0))"
proof -
  let ?a = "sample_world sample_trade"
  let ?b = "sample_world (sample_trade\<lparr>status := ''trailing'', max_profit_usd := 50\<rparr>)"
  let ?ps = "[(63600, \<lambda>n. 2), (63300, \<lambda>n::nat. 3::real)]"
  have ga: "get_trade ?a ''trade_1'' = Some 0" and gb: "get_trade ?b ''trade_1'' = Some 0"
    by (simp_all add: get_trade_def sample_world_def sample_trade_def)
  have sa: "status (objs ?a 0) = ''waiting''" and sb: "status (objs ?b 0) = ''trailing''"
    and mb: "max_profit_usd (objs ?b 0) = 50"
    by (simp_all add: sample_world_def sample_trade_def)
  have step: "\<exists>res w'. update_trade_with_price ?a ''trade_1'' 63000 (\<lambda>n. 2) = Inr (res, w') \<and>
      status (objs w' 0) = ''trailing''"
    by (auto simp: eval_defs)
  then obtain res w1 where w1: "update_trade_with_price ?a ''trade_1'' 63000 (\<lambda>n. 2) = Inr (res, w1)"
      "status (objs w1 0) = ''trailing''"
    by blast
  from max_profit_invariant [OF ga, of 63000 "\<lambda>n. 2"] w1 sa
  have 1: "max_profit_usd (objs w1 0) = current_profit_usd (objs w1 0)" by blast
  have run: "\<exists>w'. feed_prices ?b ''trade_1'' ?ps = Inr w' \<and> status (objs w' 0) = ''trailing''"
    by (simp add: eval_defs)
  then obtain w2 where w2: "feed_prices ?b ''trade_1'' ?ps = Inr w2"
      "status (objs w2 0) = ''trailing''"
    by blast
  from max_profit_invariant [OF gb, of _ _ ?ps] sb w2 mb
  have 2: "50 \<le> max_profit_usd (objs w2 0) \<and>
      current_profit_usd (objs w2 0) \<le> max_profit_usd (objs w2 0)"
    by auto
  from w1 1 w2 2 show ?thesis by blast
qed

section \<open>Properties of the store\<close>

subsection \<open>Reading trades\<close>

lemma map_of_stored_trades:
  "map_of (stored_trades w) tid = map_option (objs w) (map_of (active_trades w) tid)"
  by (simp add: stored_trades_def map_of_map)

text \<open>
  Claim C8, as the code has it. \<open>get_trade\<close> returns the stored object itself, and the
  dictionary from \<open>get_all_trades\<close> holds the stored objects themselves: for every stored
  position, assigning to a field of the record obtained from either assigns to the store's
  own record, and the next read of the store under that id sees the new value.
\<close>

theorem returned_records_are_shared:
  assumes "get_trade w tid = Some r \<or> map_of (get_all_trades w) tid = Some r"
  shows "get_trade (setattr w r u) tid = Some r \<and>
         map_of (get_all_trades (setattr w r u)) tid = Some r \<and>
         objs (setattr w r u) r = apply_update u (objs w r) \<and>
         map_of (stored_trades (setattr w r u)) tid = Some (apply_update u (objs w r))"
  using assms
  by (auto simp: get_trade_def get_all_trades_def setattr_def map_of_stored_trades)

text \<open>
  C8 on the sample store: setting \<open>max_profit_usd\<close> to 999 on the record that
  \<open>get_trade\<close> returned makes the stored record read 999.
\<close>

theorem returned_records_are_shared_witness:
  "get_trade (sample_world sample_trade) ''trade_1'' = Some 0 \<and>
   map_of (get_all_trades (sample_world sample_trade)) ''trade_1'' = Some 0 \<and>
   map_of (stored_trades (setattr (sample_world sample_trade) 0 (Set_max_profit_usd 999)))
     ''trade_1'' = Some (sample_trade\<lparr>max_profit_usd := 999\<rparr>)"
proof -
  have g: "get_trade (sample_world sample_trade) ''trade_1'' = Some 0"
    by (simp add: get_trade_def sample_world_def sample_trade_def)
  have a: "map_of (get_all_trades (sample_world sample_trade)) ''trade_1'' = Some 0"
    by (simp add: get_all_trades_def sample_world_def sample_trade_def)
  have o: "objs (sample_world sample_trade) 0 = sample_trade"
    by (simp add: sample_world_def)
  from returned_records_are_shared [of "sample_world sample_trade" "''trade_1''" 0
      "Set_max_profit_usd 999"] g a o
  show ?thesis by simp
qed

text \<open>
  C8 as written says that the store's record stays unchanged. It does not: after the
  assignment above the store holds a different record under the same id.
\<close>

theorem get_trade_alias_counterexample:
  "get_trade (sample_world sample_trade) ''trade_1'' = Some 0 \<and>
   map_of (get_all_trades (sample_world sample_trade)) ''trade_1'' = Some 0 \<and>
   map_of (stored_trades (setattr (sample_world sample_trade) 0 (Set_max_profit_usd 999)))
     ''trade_1'' \<noteq>
   map_of (stored_trades (sample_world sample_trade)) ''trade_1''"
  by (simp add: get_trade_def get_all_trades_def stored_trades_def setattr_def
        sample_world_def sample_trade_def)

subsection \<open>Saving and adding\<close>

lemma active_trades_save_state: "active_trades (save_state w now stamp) = active_trades w"
  by (simp add: save_state_def Let_def split: option.splits)

lemma objs_save_state: "objs (save_state w now stamp) = objs w"
  by (simp add: save_state_def Let_def split: option.splits)

lemma state_file_save_state:
  "state_file (save_state w now stamp) =
     Some (Document
       \<lparr>d_active_trades =
          Some (map (\<lambda>(k, r). (k, TradeDict (asdict (objs w r)))) (active_trades w)),
        d_market_data = Some (market_data w), d_balance_data = Some (balance_data w),
        d_last_update = Some now, d_bot_running = Some (bot_running w),
        d_websocket_connected = Some (websocket_connected w), d_saved_at = Some stamp\<rparr>)"
  by (simp add: save_state_def Let_def split: option.splits)

text \<open>
  Claim C7, as the code has it. \<open>add_trade\<close> makes no check and has no failure result:
  for every store state, with or without the id present, it stores the record under its
  \<open>trade_id\<close>, replacing what was stored under that id, leaves the other ids as they
  were, and writes the state file at once with the record in it.
\<close>

theorem add_trade_replaces:
  "get_trade (add_trade w r now stamp) (trade_id (objs w r)) = Some r \<and>
   (\<forall>k. k \<noteq> trade_id (objs w r) \<longrightarrow> get_trade (add_trade w r now stamp) k = get_trade w k) \<and>
   (\<exists>d kvs. state_file (add_trade w r now stamp) = Some (Document d) \<and>
        d_active_trades d = Some kvs \<and>
        map_of kvs (trade_id (objs w r)) = Some (TradeDict (asdict (objs w r))))"
proof -
  let ?w = "w\<lparr>active_trades := AList.update (trade_id (objs w r)) r (active_trades w)\<rparr>"
  have at: "active_trades (add_trade w r now stamp) =
      AList.update (trade_id (objs w r)) r (active_trades w)"
    by (simp add: add_trade_def active_trades_save_state)
  have 1: "get_trade (add_trade w r now stamp) (trade_id (objs w r)) = Some r"
    by (simp add: get_trade_def at update_conv')
  have 2: "\<forall>k. k \<noteq> trade_id (objs w r) \<longrightarrow>
      get_trade (add_trade w r now stamp) k = get_trade w k"
    by (simp add: get_trade_def at update_conv')
  have "map_of (map (\<lambda>(k, r). (k, TradeDict (asdict (objs w r))))
           (AList.update (trade_id (objs w r)) r (active_trades w))) (trade_id (objs w r)) =
        Some (TradeDict (asdict (objs w r)))"
    by (simp add: map_of_map update_conv')
  then have 3: "\<exists>d kvs. state_file (add_trade w r now stamp) = Some (Document d) \<and>
        d_active_trades d = Some kvs \<and>
        map_of kvs (trade_id (objs w r)) = Some (TradeDict (asdict (objs w r)))"
    by (simp add: add_trade_def state_file_save_state)
  from 1 2 3 show ?thesis by blast
qed

subsection \<open>The store claims on the sample position\<close>

lemmas store_eval_defs = get_trade_def stored_trades_def add_trade_def save_state_def
  new_object_def sample_world_def sample_trade_def Let_def

text \<open>
  C7 on the sample store, which holds "trade\_1" at reference 0: adding a second object
  with the same id puts that object, at reference 1, under "trade\_1"; the absent id
  "trade\_2" stays absent.
\<close>

theorem add_trade_replaces_witness:
  "get_trade (snd (new_object (sample_world sample_trade) (sample_trade\<lparr>entry_price := 70000\<rparr>)))
     ''trade_1'' = Some 0 \<and>
   get_trade
     (add_trade (snd (new_object (sample_world sample_trade) (sample_trade\<lparr>entry_price := 70000\<rparr>)))
        1 5 ''2026-01-01T00:00:05'') ''trade_1'' = Some 1 \<and>
   get_trade
     (add_trade (snd (new_object (sample_world sample_trade) (sample_trade\<lparr>entry_price := 70000\<rparr>)))
        1 5 ''2026-01-01T00:00:05'') ''trade_2'' = None"
proof -
  let ?w = "snd (new_object (sample_world sample_trade) (sample_trade\<lparr>entry_price := 70000\<rparr>))"
  have o: "trade_id (objs ?w 1) = ''trade_1''"
    by (simp add: store_eval_defs)
  have g: "get_trade ?w ''trade_1'' = Some 0" "get_trade ?w ''trade_2'' = None"
    by (simp_all add: store_eval_defs)
  have n: "''trade_2'' \<noteq> trade_id (objs ?w 1)"
    by (simp add: store_eval_defs)
  from add_trade_replaces [of ?w 1 5 "''2026-01-01T00:00:05''"] o g n
  show ?thesis by auto
qed

text \<open>
  C7 as written says that the existing record is not replaced. Here the store holds the
  sample position under "trade\_1"; after adding a record with the same id and another
  entry price, the store holds that other record under "trade\_1".
\<close>

theorem add_trade_duplicate_counterexample:
  "get_trade (snd (new_object (sample_world sample_trade) (sample_trade\<lparr>entry_price := 70000\<rparr>)))
     ''trade_1'' = Some 0 \<and>
   map_of (stored_trades
       (snd (new_object (sample_world sample_trade) (sample_trade\<lparr>entry_price := 70000\<rparr>))))
     ''trade_1'' = Some sample_trade \<and>
   map_of (stored_trades
       (add_trade (snd (new_object (sample_world sample_trade) (sample_trade\<lparr>entry_price := 70000\<rparr>)))
          1 5 ''2026-01-01T00:00:05''))
     ''trade_1'' = Some (sample_trade\<lparr>entry_price := 70000\<rparr>) \<and>
   sample_trade\<lparr>entry_price := 70000\<rparr> \<noteq> sample_trade"
proof -
  have "entry_price (sample_trade\<lparr>entry_price := 70000\<rparr>) \<noteq> entry_price sample_trade"
    by (simp add: sample_trade_def)
  then have ne: "sample_trade\<lparr>entry_price := 70000\<rparr> \<noteq> sample_trade"
    by metis
  show ?thesis
    using ne by (simp add: store_eval_defs)
qed

text \<open>
  Claim C6, as the code has it. Two calls of \<open>save_state\<close> in succession write two
  documents that agree except in \<open>saved_at\<close> and in \<open>last_update\<close>, which each call
  sets to its own clock reading before writing; the second call also leaves the first
  document in the backup file.
\<close>

theorem save_twice:
  "\<exists>d1 d2. state_file (save_state w t1 s1) = Some (Document d1) \<and>
           state_file (save_state (save_state w t1 s1) t2 s2) = Some (Document d2) \<and>
           d2 = d1\<lparr>d_last_update := Some t2, d_saved_at := Some s2\<rparr> \<and>
           backup_file (save_state (save_state w t1 s1) t2 s2) = Some (Document d1)"
  by (simp add: state_file_save_state active_trades_save_state objs_save_state
        save_state_def Let_def split: option.splits)

text \<open>
  C6 as written allows a difference in \<open>saved_at\<close> only. With clock readings 100 and
  101 the two documents differ also when \<open>saved_at\<close> is blanked in both.
\<close>

theorem save_twice_counterexample:
  "\<exists>d1 d2. state_file (save_state (sample_world sample_trade) 100 ''2026-01-01T00:01:40'') =
             Some (Document d1) \<and>
           state_file (save_state (save_state (sample_world sample_trade) 100 ''2026-01-01T00:01:40'')
             101 ''2026-01-01T00:01:41'') = Some (Document d2) \<and>
           d1\<lparr>d_saved_at := None\<rparr> \<noteq> d2\<lparr>d_saved_at := None\<rparr>"
  by (simp add: state_file_save_state active_trades_save_state objs_save_state)

subsection \<open>Loading\<close>

lemma update_fresh_key:
  "k \<notin> fst ` set al \<Longrightarrow> AList.update k v al = al @ [(k, v)]"
  by (induction al) auto

lemma well_formed_records_Cons:
  "well_formed_records ((k, td) # kvs) =
     (case mk_TradeState td of Inl e \<Rightarrow> well_formed_records kvs
      | Inr t \<Rightarrow> (k, t) # well_formed_records kvs)"
  by (simp add: well_formed_records_def map_filter_simps split: sum.splits)

lemma well_formed_records_Nil: "well_formed_records [] = []"
  by (simp add: well_formed_records_def map_filter_simps)

lemma restore_tolerant_frame:
  "restore_tolerant w kvs acc = (w', trades) \<Longrightarrow>
   w' = w\<lparr>objs := objs w', next_ref := next_ref w'\<rparr>"
proof (induction kvs arbitrary: w acc)
  case Nil
  then show ?case by simp
next
  case (Cons kv kvs)
  obtain k td where kv: "kv = (k, td)" by (cases kv)
  show ?case
  proof (cases "mk_TradeState td")
    case (Inl e)
    with Cons kv show ?thesis by simp
  next
    case (Inr t)
    let ?w1 = "w\<lparr>objs := (objs w)(next_ref w := t), next_ref := Suc (next_ref w)\<rparr>"
    from Cons.prems kv Inr
    have "restore_tolerant ?w1 kvs (AList.update k (next_ref w) acc) = (w', trades)"
      by (simp add: new_object_def)
    from Cons.IH [OF this] have "w' = ?w1\<lparr>objs := objs w', next_ref := next_ref w'\<rparr>" .
    then show ?thesis by simp
  qed
qed

lemma restore_tolerant_stored:
  assumes "restore_tolerant w kvs acc = (w', trades)"
    and "distinct (map fst kvs)"
    and "fst ` set acc \<inter> fst ` set kvs = {}"
    and "\<forall>(k, r) \<in> set acc. r < next_ref w"
  shows "map (\<lambda>(k, r). (k, objs w' r)) trades =
           map (\<lambda>(k, r). (k, objs w r)) acc @ well_formed_records kvs"
  using assms
proof (induction kvs arbitrary: w acc)
  case Nil
  then show ?case by (simp add: well_formed_records_Nil)
next
  case (Cons kv kvs)
  obtain k td where kv: "kv = (k, td)" by (cases kv)
  from Cons.prems(2) kv have dist: "distinct (map fst kvs)" and knew: "k \<notin> fst ` set kvs"
    by auto
  from Cons.prems(3) kv have kacc: "k \<notin> fst ` set acc"
    and disj: "fst ` set acc \<inter> fst ` set kvs = {}"
    by auto
  show ?case
  proof (cases "mk_TradeState td")
    case (Inl e)
    with Cons.prems(1) kv have "restore_tolerant w kvs acc = (w', trades)" by simp
    from Cons.IH [OF this dist disj Cons.prems(4)] Inl kv
    show ?thesis by (simp add: well_formed_records_Cons)
  next
    case (Inr t)
    let ?w1 = "w\<lparr>objs := (objs w)(next_ref w := t), next_ref := Suc (next_ref w)\<rparr>"
    let ?acc1 = "acc @ [(k, next_ref w)]"
    from Cons.prems(1) kv Inr kacc
    have r: "restore_tolerant ?w1 kvs ?acc1 = (w', trades)"
      by (simp add: new_object_def update_fresh_key)
    have d1: "fst ` set ?acc1 \<inter> fst ` set kvs = {}"
      using disj knew by auto
    have b1: "\<forall>(k, r) \<in> set ?acc1. r < next_ref ?w1"
      using Cons.prems(4) by (auto simp: less_Suc_eq)
    have old: "map (\<lambda>(k, r). (k, objs ?w1 r)) acc = map (\<lambda>(k, r). (k, objs w r)) acc"
      using Cons.prems(4) by (auto simp: fun_upd_def)
    from Cons.IH [OF r dist d1 b1]
    have "map (\<lambda>(k, r). (k, objs w' r)) trades =
        map (\<lambda>(k, r). (k, objs ?w1 r)) ?acc1 @ well_formed_records kvs" .
    also have "map (\<lambda>(k, r). (k, objs ?w1 r)) ?acc1 =
        map (\<lambda>(k, r). (k, objs w r)) acc @ [(k, t)]"
      using old by simp
    finally show ?thesis
      using Inr kv by (simp add: well_formed_records_Cons)
  qed
qed

lemma restore_strict_all_parse:
  "\<forall>(k, td) \<in> set kvs. \<exists>t. mk_TradeState td = Inr t \<Longrightarrow>
   restore_strict w kvs acc = Inr (restore_tolerant w kvs acc)"
  by (induction kvs arbitrary: w acc) (auto split: prod.splits)

lemma restore_strict_fails:
  "(k, td) \<in> set kvs \<Longrightarrow> mk_TradeState td = Inl e \<Longrightarrow>
   \<exists>e'. restore_strict w kvs acc = Inl e'"
proof (induction kvs arbitrary: w acc)
  case Nil
  then show ?case by simp
next
  case (Cons kv kvs)
  obtain k' td' where kv: "kv = (k', td')" by (cases kv)
  show ?case
  proof (cases "mk_TradeState td'")
    case (Inl e')
    with kv show ?thesis by simp
  next
    case (Inr t)
    with Cons.prems kv have "(k, td) \<in> set kvs" by auto
    from Cons.IH [OF this Cons.prems(2)] Inr kv show ?thesis
      by (simp split: prod.splits)
  qed
qed

lemma well_formed_records_all:
  "\<forall>(k, td) \<in> set kvs. \<exists>t. mk_TradeState td = Inr t \<Longrightarrow>
   map fst (well_formed_records kvs) = map fst kvs"
  by (induction kvs) (auto simp: well_formed_records_Cons well_formed_records_Nil)

lemma try_load_backup_document:
  assumes b: "backup_file w = Some (Document d)"
    and dist: "distinct (map fst (items_or_empty (d_active_trades d)))"
  shows "stored_trades (try_load_backup w) = well_formed_records (items_or_empty (d_active_trades d))"
    and "bot_running (try_load_backup w) = bot_running w"
    and "websocket_connected (try_load_backup w) = websocket_connected w"
proof -
  let ?kvs = "items_or_empty (d_active_trades d)"
  obtain w' trades where r: "restore_tolerant w ?kvs [] = (w', trades)"
    by (cases "restore_tolerant w ?kvs []")
  have t: "try_load_backup w = w'\<lparr>active_trades := trades\<rparr>"
    using b r by (simp add: try_load_backup_def)
  from restore_tolerant_stored [OF r dist]
  have "map (\<lambda>(k, r). (k, objs w' r)) trades = well_formed_records ?kvs" by simp
  then show "stored_trades (try_load_backup w) = well_formed_records ?kvs"
    by (simp add: t stored_trades_def)
  from restore_tolerant_frame [OF r]
  have f: "w' = w\<lparr>objs := objs w', next_ref := next_ref w'\<rparr>" .
  have "bot_running w' = bot_running w" "websocket_connected w' = websocket_connected w"
    by (subst f, simp)+
  then show "bot_running (try_load_backup w) = bot_running w"
    and "websocket_connected (try_load_backup w) = websocket_connected w"
    by (simp_all add: t)
qed

lemma try_load_backup_flags:
  "bot_running (try_load_backup w) = bot_running w \<and>
   websocket_connected (try_load_backup w) = websocket_connected w"
proof (cases "backup_file w")
  case None
  then show ?thesis by (simp add: try_load_backup_def)
next
  case (Some c)
  show ?thesis
  proof (cases c)
    case Unparseable
    with Some show ?thesis by (simp add: try_load_backup_def)
  next
    case (Document d)
    let ?kvs = "items_or_empty (d_active_trades d)"
    obtain w' trades where r: "restore_tolerant w ?kvs [] = (w', trades)"
      by (cases "restore_tolerant w ?kvs []")
    have t: "try_load_backup w = w'\<lparr>active_trades := trades\<rparr>"
      using Some Document r by (simp add: try_load_backup_def)
    from restore_tolerant_frame [OF r]
    have f: "w' = w\<lparr>objs := objs w', next_ref := next_ref w'\<rparr>" .
    have "bot_running w' = bot_running w" "websocket_connected w' = websocket_connected w"
      by (subst f, simp)+
    then show ?thesis by (simp add: t)
  qed
qed

lemma load_state_primary_ok:
  assumes p: "state_file w = Some (Document d)"
    and ok: "\<forall>(k, td) \<in> set (items_or_empty (d_active_trades d)). \<exists>t. mk_TradeState td = Inr t"
    and dist: "distinct (map fst (items_or_empty (d_active_trades d)))"
  shows "stored_trades (load_state w now) = well_formed_records (items_or_empty (d_active_trades d))"
    and "\<not> bot_running (load_state w now)"
    and "\<not> websocket_connected (load_state w now)"
proof -
  let ?kvs = "items_or_empty (d_active_trades d)"
  obtain w' trades where r: "restore_tolerant w ?kvs [] = (w', trades)"
    by (cases "restore_tolerant w ?kvs []")
  have s: "restore_strict w ?kvs [] = Inr (w', trades)"
    using restore_strict_all_parse [OF ok, of w "[]"] r by simp
  have l: "load_state w now =
      w'\<lparr>active_trades := trades, market_data := items_or_empty (d_market_data d),
         balance_data := items_or_empty (d_balance_data d),
         sys_last_update := (case d_last_update d of None \<Rightarrow> now | Some t \<Rightarrow> t),
         bot_running := False, websocket_connected := False\<rparr>"
    using p s by (simp add: load_state_def)
  from restore_tolerant_stored [OF r dist]
  have "map (\<lambda>(k, r). (k, objs w' r)) trades = well_formed_records ?kvs" by simp
  then show "stored_trades (load_state w now) = well_formed_records ?kvs"
    by (simp add: l stored_trades_def)
  show "\<not> bot_running (load_state w now)" "\<not> websocket_connected (load_state w now)"
    by (simp_all add: l)
qed

lemma load_state_primary_fails:
  assumes "state_file w = Some Unparseable \<or>
     (\<exists>d k td e. state_file w = Some (Document d) \<and>
        (k, td) \<in> set (items_or_empty (d_active_trades d)) \<and> mk_TradeState td = Inl e)"
  shows "load_state w now = try_load_backup w"
  using assms
proof
  assume "state_file w = Some Unparseable"
  then show ?thesis by (simp add: load_state_def)
next
  assume "\<exists>d k td e. state_file w = Some (Document d) \<and>
        (k, td) \<in> set (items_or_empty (d_active_trades d)) \<and> mk_TradeState td = Inl e"
  then obtain d k td e where d: "state_file w = Some (Document d)"
      "(k, td) \<in> set (items_or_empty (d_active_trades d))" "mk_TradeState td = Inl e"
    by blast
  from restore_strict_fails [OF d(2) d(3), of w "[]"]
  obtain e' where "restore_strict w (items_or_empty (d_active_trades d)) [] = Inl e'" by blast
  with d(1) show ?thesis by (simp add: load_state_def)
qed

lemma load_state_flags_after_false:
  "\<not> bot_running w \<Longrightarrow> \<not> websocket_connected w \<Longrightarrow>
   \<not> bot_running (load_state w now) \<and> \<not> websocket_connected (load_state w now)"
  using try_load_backup_flags [of w]
  by (auto simp: load_state_def split: option.splits file_content.splits sum.splits prod.splits)

text \<open>
  Claim C5, as the code has it. The keys of a JSON object are distinct, which is the
  \<open>distinct\<close> hypothesis on a document.
  \<^item> If the primary file parses and every one of its position records constructs, load
    restores all of them and sets both flags to false.
  \<^item> If the primary file does not parse, or one of its position records does not
    construct, load falls back to the backup file: of a backup that parses it restores
    exactly the records that construct, skipping each one that does not, and leaves the
    flags as they were.
  \<^item> After the constructor of the store, which is the only caller of \<open>load_state\<close>, both
    flags are false.
\<close>

theorem load_recovery:
  "(\<forall>d. state_file w = Some (Document d) \<and>
        (\<forall>(k, td) \<in> set (items_or_empty (d_active_trades d)). \<exists>t. mk_TradeState td = Inr t) \<and>
        distinct (map fst (items_or_empty (d_active_trades d))) \<longrightarrow>
        stored_trades (load_state w now) = well_formed_records (items_or_empty (d_active_trades d)) \<and>
        map fst (stored_trades (load_state w now)) = map fst (items_or_empty (d_active_trades d)) \<and>
        \<not> bot_running (load_state w now) \<and> \<not> websocket_connected (load_state w now)) \<and>
   (\<forall>b. (state_file w = Some Unparseable \<or>
         (\<exists>d k td e. state_file w = Some (Document d) \<and>
            (k, td) \<in> set (items_or_empty (d_active_trades d)) \<and> mk_TradeState td = Inl e)) \<and>
        backup_file w = Some (Document b) \<and>
        distinct (map fst (items_or_empty (d_active_trades b))) \<longrightarrow>
        stored_trades (load_state w now) = well_formed_records (items_or_empty (d_active_trades b)) \<and>
        bot_running (load_state w now) = bot_running w \<and>
        websocket_connected (load_state w now) = websocket_connected w) \<and>
   \<not> bot_running (SharedState_init w t0 now) \<and> \<not> websocket_connected (SharedState_init w t0 now)"
proof (intro conjI allI impI)
  fix d
  assume a: "state_file w = Some (Document d) \<and>
        (\<forall>(k, td) \<in> set (items_or_empty (d_active_trades d)). \<exists>t. mk_TradeState td = Inr t) \<and>
        distinct (map fst (items_or_empty (d_active_trades d)))"
  then have p: "state_file w = Some (Document d)"
    and ok: "\<forall>(k, td) \<in> set (items_or_empty (d_active_trades d)). \<exists>t. mk_TradeState td = Inr t"
    and dist: "distinct (map fst (items_or_empty (d_active_trades d)))"
    by blast+
  note l = load_state_primary_ok [OF p ok dist, of now]
  show "stored_trades (load_state w now) = well_formed_records (items_or_empty (d_active_trades d))"
    by (rule l(1))
  show "map fst (stored_trades (load_state w now)) = map fst (items_or_empty (d_active_trades d))"
    by (simp add: l(1) well_formed_records_all [OF ok])
  show "\<not> bot_running (load_state w now)" by (rule l(2))
  show "\<not> websocket_connected (load_state w now)" by (rule l(3))
next
  fix b
  assume a: "(state_file w = Some Unparseable \<or>
         (\<exists>d k td e. state_file w = Some (Document d) \<and>
            (k, td) \<in> set (items_or_empty (d_active_trades d)) \<and> mk_TradeState td = Inl e)) \<and>
        backup_file w = Some (Document b) \<and>
        distinct (map fst (items_or_empty (d_active_trades b)))"
  then have l: "load_state w now = try_load_backup w"
    using load_state_primary_fails [of w now] by blast
  from a have b: "backup_file w = Some (Document b)"
    and dist: "distinct (map fst (items_or_empty (d_active_trades b)))"
    by blast+
  note t = try_load_backup_document [OF b dist]
  show "stored_trades (load_state w now) = well_formed_records (items_or_empty (d_active_trades b))"
    by (simp add: l t(1))
  show "bot_running (load_state w now) = bot_running w" by (simp add: l t(2))
  show "websocket_connected (load_state w now) = websocket_connected w" by (simp add: l t(3))
next
  let ?w0 = "w\<lparr>active_trades := [], market_data := [], balance_data := [],
                   sys_last_update := t0, bot_running := False,
                   websocket_connected := False\<rparr>"
  have f: "\<not> bot_running ?w0" "\<not> websocket_connected ?w0" by simp_all
  from load_state_flags_after_false [OF f, of now]
  show "\<not> bot_running (SharedState_init w t0 now)"
    and "\<not> websocket_connected (SharedState_init w t0 now)"
    by (simp_all add: SharedState_init_def)
qed

lemma mk_TradeState_asdict: "mk_TradeState (TradeDict (asdict t)) = Inr t"
  by (simp add: mk_TradeState_def asdict_def)

lemma mk_good_record: "mk_TradeState good_record = Inr sample_trade"
  by (simp add: good_record_def mk_TradeState_asdict)

lemma mk_malformed_record: "mk_TradeState malformed_record = Inl TypeError"
  by (simp add: malformed_record_def mk_TradeState_def asdict_def)

text \<open>
  C5 with a corrupt primary file and a backup that holds one well-formed and one malformed
  position: load recovers exactly the well-formed one. And with a well-formed primary file
  and both flags set before, load restores the position and clears the flags.
\<close>

theorem load_recovery_witness:
  "stored_trades
     (load_state
        (fresh_world (Some Unparseable)
           (Some (Document (sample_document
              [(''trade_1'', good_record), (''trade_2'', malformed_record)])))) 7) =
     [(''trade_1'', sample_trade)] \<and>
   stored_trades
     (load_state
        (fresh_world
           (Some (Document (sample_document [(''trade_1'', good_record)]))) None
         \<lparr>bot_running := True, websocket_connected := True\<rparr>) 7) =
     [(''trade_1'', sample_trade)] \<and>
   \<not> bot_running
     (load_state
        (fresh_world
           (Some (Document (sample_document [(''trade_1'', good_record)]))) None
         \<lparr>bot_running := True, websocket_connected := True\<rparr>) 7)"
proof -
  let ?b = "sample_document [(''trade_1'', good_record), (''trade_2'', malformed_record)]"
  let ?d = "sample_document [(''trade_1'', good_record)]"
  let ?w1 = "fresh_world (Some Unparseable) (Some (Document ?b))"
  let ?w2 = "fresh_world (Some (Document ?d)) None
         \<lparr>bot_running := True, websocket_connected := True\<rparr>"
  have h1: "(state_file ?w1 = Some Unparseable \<or>
         (\<exists>d k td e. state_file ?w1 = Some (Document d) \<and>
            (k, td) \<in> set (items_or_empty (d_active_trades d)) \<and> mk_TradeState td = Inl e)) \<and>
        backup_file ?w1 = Some (Document ?b) \<and>
        distinct (map fst (items_or_empty (d_active_trades ?b)))"
    by (simp add: fresh_world_def sample_document_def items_or_empty_def)
  have wf1: "well_formed_records (items_or_empty (d_active_trades ?b)) =
      [(''trade_1'', sample_trade)]"
    by (simp add: sample_document_def items_or_empty_def well_formed_records_def
          map_filter_simps mk_good_record mk_malformed_record)
  have h2: "state_file ?w2 = Some (Document ?d) \<and>
        (\<forall>(k, td) \<in> set (items_or_empty (d_active_trades ?d)). \<exists>t. mk_TradeState td = Inr t) \<and>
        distinct (map fst (items_or_empty (d_active_trades ?d)))"
    by (simp add: fresh_world_def sample_document_def items_or_empty_def mk_good_record)
  have wf2: "well_formed_records (items_or_empty (d_active_trades ?d)) =
      [(''trade_1'', sample_trade)]"
    by (simp add: sample_document_def items_or_empty_def well_formed_records_def
          map_filter_simps mk_good_record)
  note r1 = load_recovery [of ?w1 7 0, THEN conjunct2, THEN conjunct1, rule_format, of ?b, OF h1]
  note r2 = load_recovery [of ?w2 7 0, THEN conjunct1, rule_format, of ?d, OF h2]
  from r1 have 1: "stored_trades (load_state ?w1 7) = [(''trade_1'', sample_trade)]"
    unfolding wf1 by (rule conjunct1)
  from r2 have 2: "stored_trades (load_state ?w2 7) = [(''trade_1'', sample_trade)]"
    unfolding wf2 by (rule conjunct1)
  from r2 have 3: "\<not> bot_running (load_state ?w2 7)"
    by (rule conjunct2 [THEN conjunct2, THEN conjunct1])
  from 1 2 3 show ?thesis by (intro conjI)
qed

text \<open>
  C5 as written gives the primary file the per-record tolerance and has the flags false
  after any load. A primary file with one well-formed and one malformed position and no
  backup restores nothing; and a load that finds no primary file, or that falls back to
  the backup, leaves a flag that was true as it is.
\<close>

theorem load_primary_strict_counterexample:
  "stored_trades
     (load_state
        (fresh_world
           (Some (Document (sample_document
              [(''trade_1'', good_record), (''trade_2'', malformed_record)]))) None) 7) = [] \<and>
   bot_running (load_state (fresh_world None None\<lparr>bot_running := True\<rparr>) 7) \<and>
   bot_running
     (load_state
        (fresh_world (Some Unparseable)
           (Some (Document (sample_document [(''trade_1'', good_record)])))
         \<lparr>bot_running := True\<rparr>) 7)"
  by (simp add: load_state_def try_load_backup_def fresh_world_def sample_document_def
        items_or_empty_def mk_good_record mk_malformed_record new_object_def stored_trades_def)

end
